theory Spec2Isabelle
  imports Main "HOL-Library.Multiset"
begin

section \<open>The certs command of now-cli\<close>

text \<open>
  A shallow embedding of \<^verbatim>\<open>src/providers/sh/commands/certs.js\<close>. The command is glue
  around collaborators that live outside the file: the remote client \<^verbatim>\<open>NowCerts\<close>, the
  file system, standard input, the argument parser \<^verbatim>\<open>mri\<close> and the helper
  \<^verbatim>\<open>util/exit\<close>. Whatever they answer is a field of the environment \<open>env\<close>; whatever
  the command does to them is an event of a trace, in program order. A function of the
  source becomes a function from the environment to a trace and a completion.

  Strings are lists of characters with codes below 256. Durations and time stamps that
  are only printed (\<^verbatim>\<open>ms\<close>, \<^verbatim>\<open>Date.now\<close>) and colours (\<^verbatim>\<open>chalk\<close>) are left out of
  the printed values: an output event names what is printed, not its layout, and the
  usage texts are given without their back quotes.
\<close>

subsection \<open>Data\<close>

record cert =
  uid :: string
  cn :: string
  created :: int
  expiration :: int
  autoRenew :: bool

text \<open>The object \<^verbatim>\<open>mri\<close> returns: \<open>positional\<close> is its field \<^verbatim>\<open>_\<close>; a string
  option that was not given is \<^verbatim>\<open>undefined\<close> (\<open>None\<close>), one given without a value is
  the empty string.\<close>

record argv =
  positional :: "string list"
  help_opt :: bool
  debug_opt :: bool
  crt :: "string option"
  key :: "string option"
  ca :: "string option"

record team =
  slug :: "string option"

record user =
  username :: "string option"
  email :: "string option"

record sh_config =
  currentTeam :: "team option"
  user :: user

record credential =
  provider :: string
  token :: string

record ctx =
  ctx_argv :: "string list"
  apiUrl :: string
  credentials :: "credential list"
  sh :: sh_config

datatype error = Api_error string | File_error string | Type_error

text \<open>What \<^verbatim>\<open>exit(code)\<close> of \<^verbatim>\<open>util/exit\<close> gives back to its caller. The helper is
  not part of the file, so all three behaviours a caller can meet are kept: the call
  returns \<^verbatim>\<open>undefined\<close>, it returns a promise that never settles, or it ends the
  process inside the call.\<close>

datatype exit_behaviour = Returns_undefined | Returns_pending | Halts

datatype message =
    Invalid_args string
  | Missing_custom_args
  | User_abort
  | Invalid_subcommand
  | Not_found "string option" "string option"

datatype printed =
    Found nat "string option"
  | Table_header nat
  | Table_row nat cert
  | Success string string string
  | Confirm_msg string
  | Confirm_table cert
  | Are_you_sure

datatype event =
    New_certs
  | Api_ls
  | Api_create string
  | Api_put string string string string
  | Api_renew string
  | Api_delete string
  | Api_close
  | Read_file string
  | Console_error message
  | Console_log printed
  | Stdout_write printed
  | Help
  | Stdin_pause
  | Exit nat
  | Handle_error error
  | Process_exit nat

record env =
  exit_gives :: exit_behaviour
  supportsColor :: bool
  localeCompare :: "string \<Rightarrow> string \<Rightarrow> int"
  mri :: "string list \<Rightarrow> argv"
  certs_ls :: "error + cert list"
  certs_create :: "string \<Rightarrow> error + cert option"
  certs_put :: "string \<Rightarrow> string \<Rightarrow> string \<Rightarrow> string \<Rightarrow> error + cert option"
  certs_renew :: "string \<Rightarrow> error + unit"
  certs_delete :: "string \<Rightarrow> error + unit"
  certs_close :: "error + unit"
  readFileSync :: "string \<Rightarrow> error + string"
  stdin_data :: "string option"

subsection \<open>Control flow\<close>

text \<open>How a piece of the program ends: it goes on with a value, it leaves the
  dispatcher through one of its early \<^verbatim>\<open>return exit(code)\<close> statements, it throws, or
  it never resumes (an awaited promise that does not settle, or the end of the process).\<close>

datatype 'a completion = Normal 'a | Return | Throw error | Never

type_synonym 'a io = "event list \<times> 'a completion"

definition unit_io :: "'a \<Rightarrow> 'a io" where
  "unit_io x = ([], Normal x)"

definition bind_io :: "'a io \<Rightarrow> ('a \<Rightarrow> 'b io) \<Rightarrow> 'b io" where
  "bind_io m f =
     (case m of
        (tr, Normal x) \<Rightarrow> (case f x of (tr', c) \<Rightarrow> (tr @ tr', c))
      | (tr, Return) \<Rightarrow> (tr, Return)
      | (tr, Throw e) \<Rightarrow> (tr, Throw e)
      | (tr, Never) \<Rightarrow> (tr, Never))"

definition then_io :: "unit io \<Rightarrow> 'a io \<Rightarrow> 'a io" where
  "then_io m n = bind_io m (\<lambda>_. n)"

definition block :: "unit io list \<Rightarrow> unit io" where
  "block stmts = foldr then_io stmts (unit_io ())"

definition emit :: "event \<Rightarrow> unit io" where
  "emit e = ([e], Normal ())"

text \<open>A call of a collaborator: the event, then its answer or its exception.\<close>

definition call :: "event \<Rightarrow> error + 'a \<Rightarrow> 'a io" where
  "call e r = ([e], case r of Inl err \<Rightarrow> Throw err | Inr x \<Rightarrow> Normal x)"

definition console_error :: "message \<Rightarrow> unit io" where
  "console_error m = emit (Console_error m)"

definition console_log :: "printed \<Rightarrow> unit io" where
  "console_log x = emit (Console_log x)"

definition stdout_write :: "printed \<Rightarrow> unit io" where
  "stdout_write x = emit (Stdout_write x)"

text \<open>The three ways the source uses \<^verbatim>\<open>exit\<close>: as a statement, awaited, and as the
  operand of \<^verbatim>\<open>return\<close>.\<close>

definition exit_stmt :: "env \<Rightarrow> nat \<Rightarrow> unit io" where
  "exit_stmt env code = ([Exit code], if exit_gives env = Halts then Never else Normal ())"

definition await_exit :: "env \<Rightarrow> nat \<Rightarrow> unit io" where
  "await_exit env code =
     ([Exit code], if exit_gives env = Returns_undefined then Normal () else Never)"

definition return_exit :: "env \<Rightarrow> nat \<Rightarrow> 'a io" where
  "return_exit env code =
     ([Exit code], if exit_gives env = Returns_undefined then Return else Never)"

subsection \<open>JavaScript values\<close>

definition truthy :: "string option \<Rightarrow> bool" where
  "truthy v = (case v of None \<Rightarrow> False | Some s \<Rightarrow> s \<noteq> [])"

definition js_or :: "string option \<Rightarrow> string option \<Rightarrow> string option" where
  "js_or a b = (if truthy a then a else b)"

definition arg0 :: "string list \<Rightarrow> string option" where
  "arg0 args = (case args of [] \<Rightarrow> None | a # _ \<Rightarrow> Some a)"

definition isWhiteSpace :: "char \<Rightarrow> bool" where
  "isWhiteSpace c = (of_char c \<in> {9, 10, 11, 12, 13, 32, 160 :: nat})"

definition trim :: "string \<Rightarrow> string" where
  "trim s = rev (dropWhile isWhiteSpace (rev (dropWhile isWhiteSpace s)))"

definition toLowerCase_char :: "char \<Rightarrow> char" where
  "toLowerCase_char c =
     (let n = of_char c :: nat
      in if (65 \<le> n \<and> n \<le> 90) \<or> (192 \<le> n \<and> n \<le> 222 \<and> n \<noteq> 215)
         then char_of (n + 32) else c)"

definition toLowerCase :: "string \<Rightarrow> string" where
  "toLowerCase s = map toLowerCase_char s"

text \<open>\<^verbatim>\<open>Array.prototype.sort\<close> with a comparator. The runtime's sort is stable; for a
  comparator that is a total preorder its result is the one this insertion sort computes.\<close>

fun insert_sorted :: "('a \<Rightarrow> 'a \<Rightarrow> int) \<Rightarrow> 'a \<Rightarrow> 'a list \<Rightarrow> 'a list" where
  "insert_sorted cmp x [] = [x]"
| "insert_sorted cmp x (y # ys) =
     (if cmp x y \<le> 0 then x # y # ys else y # insert_sorted cmp x ys)"

definition array_sort :: "('a \<Rightarrow> 'a \<Rightarrow> int) \<Rightarrow> 'a list \<Rightarrow> 'a list" where
  "array_sort cmp xs = foldr (insert_sorted cmp) xs []"

subsection \<open>The helpers of the command\<close>

text \<open>\<^verbatim>\<open>(currentTeam && currentTeam.slug) || user.username || user.email\<close>\<close>

definition scope :: "sh_config \<Rightarrow> string option" where
  "scope s =
     js_or (js_or (case currentTeam s of None \<Rightarrow> None | Some t \<Rightarrow> slug t)
                  (username (user s)))
           (email (user s))"

definition readX509File :: "env \<Rightarrow> string \<Rightarrow> string io" where
  "readX509File env file = call (Read_file file) (readFileSync env file)"

definition getCertIdCn :: "env \<Rightarrow> string option \<Rightarrow> sh_config \<Rightarrow> cert option io" where
  "getCertIdCn env idOrCn s =
     bind_io (call Api_ls (certs_ls env)) (\<lambda>list.
       case filter (\<lambda>cert. Some (uid cert) = idOrCn \<or> Some (cn cert) = idOrCn) list of
         [] \<Rightarrow> then_io (console_error (Not_found idOrCn (scope s))) (unit_io None)
       | thecert # _ \<Rightarrow> unit_io (Some thecert))"

definition readConfirmation :: "env \<Rightarrow> cert \<Rightarrow> string \<Rightarrow> bool io" where
  "readConfirmation env cert msg =
     then_io
       (block [stdout_write (Confirm_msg msg),
               stdout_write (Confirm_table cert),
               stdout_write Are_you_sure])
       (case stdin_data env of
          None \<Rightarrow> ([], Never)
        | Some d \<Rightarrow> then_io (emit Stdin_pause) (unit_io (toLowerCase (trim d) = ''y'')))"

subsection \<open>The dispatcher\<close>

text \<open>One definition for each branch of the \<^verbatim>\<open>if\<close> chain of \<^verbatim>\<open>run\<close>. \<open>args\<close> is
  \<^verbatim>\<open>argv._.slice(1)\<close>.\<close>

definition run_ls :: "env \<Rightarrow> string list \<Rightarrow> sh_config \<Rightarrow> unit io" where
  "run_ls env args s =
     (if length args \<noteq> 0 then
        then_io (console_error (Invalid_args ''now certs ls'')) (return_exit env 1)
      else
        bind_io (call Api_ls (certs_ls env)) (\<lambda>list.
          then_io (console_log (Found (length list) (scope s)))
            (if length list > 0 then
               (let sorted_list = array_sort (\<lambda>a b. localeCompare env (cn a) (cn b)) list;
                    maxCnLength = foldl (\<lambda>acc i. max acc (length (cn i))) 0 sorted_list + 1;
                    width = (if supportsColor env then maxCnLength + 9 else maxCnLength)
                in then_io (console_log (Table_header maxCnLength))
                     (block (map (\<lambda>cert. stdout_write (Table_row width cert)) sorted_list)))
             else unit_io ())))"

text \<open>In \<open>run_create\<close> and \<open>run_replace\<close> the files are read only after the flags were
  found truthy, so \<open>the\<close> is applied to \<open>Some\<close> values only.\<close>

definition run_create :: "env \<Rightarrow> argv \<Rightarrow> string list \<Rightarrow> unit io" where
  "run_create env av args =
     (if length args \<noteq> 1 then
        then_io (console_error (Invalid_args ''now certs create <cn>'')) (return_exit env 1)
      else
        (let cn' = hd args in
         bind_io
           (if truthy (crt av) \<or> truthy (key av) \<or> truthy (ca av) then
              (if \<not> truthy (crt av) \<or> \<not> truthy (key av) then
                 then_io (console_error Missing_custom_args) (return_exit env 1)
               else
                 bind_io (readX509File env (the (crt av))) (\<lambda>crt'.
                 bind_io (readX509File env (the (key av))) (\<lambda>key'.
                 bind_io (if truthy (ca av) then readX509File env (the (ca av))
                          else unit_io []) (\<lambda>ca'.
                 call (Api_put cn' crt' key' ca') (certs_put env cn' crt' key' ca')))))
            else call (Api_create cn') (certs_create env cn'))
           (\<lambda>cert.
              case cert of
                None \<Rightarrow> return_exit env 1
              | Some c \<Rightarrow> console_log (Success ''created'' cn' (uid c)))))"

definition run_renew :: "env \<Rightarrow> string list \<Rightarrow> sh_config \<Rightarrow> unit io" where
  "run_renew env args s =
     (if length args \<noteq> 1 then
        then_io (console_error (Invalid_args ''now certs renew <id | cn>''))
          (return_exit env 1)
      else
        bind_io (getCertIdCn env (arg0 args) s) (\<lambda>found.
          case found of
            None \<Rightarrow> return_exit env 1
          | Some cert \<Rightarrow>
              bind_io (readConfirmation env cert
                         (''The following certificate will be renewed'' @ [CHR 0x0A])) (\<lambda>yes.
                if \<not> yes then then_io (console_error User_abort) (return_exit env 0)
                else
                  then_io (call (Api_renew (cn cert)) (certs_renew env (cn cert)))
                    (console_log (Success ''renewed'' (cn cert) (uid cert))))))"

definition run_replace :: "env \<Rightarrow> argv \<Rightarrow> string list \<Rightarrow> sh_config \<Rightarrow> unit io" where
  "run_replace env av args s =
     (if \<not> truthy (crt av) \<or> \<not> truthy (key av) then
        then_io
          (console_error (Invalid_args
             ''now certs replace --crt DOMAIN.CRT --key DOMAIN.KEY [--ca CA.CRT] <id | cn>''))
          (return_exit env 1)
      else
        bind_io (readX509File env (the (crt av))) (\<lambda>crt'.
        bind_io (readX509File env (the (key av))) (\<lambda>key'.
        bind_io (if truthy (ca av) then readX509File env (the (ca av))
                 else unit_io []) (\<lambda>ca'.
        bind_io (getCertIdCn env (arg0 args) s) (\<lambda>found.
          case found of
            None \<Rightarrow> return_exit env 1
          | Some cert \<Rightarrow>
              bind_io (readConfirmation env cert
                         (''The following certificate will be replaced permanently'' @ [CHR 0x0A])) (\<lambda>yes.
                if \<not> yes then then_io (console_error User_abort) (return_exit env 0)
                else
                  bind_io (call (Api_put (cn cert) crt' key' ca')
                             (certs_put env (cn cert) crt' key' ca')) (\<lambda>_.
                    console_log (Success ''replaced'' (cn cert) (uid cert)))))))))"

definition run_rm :: "env \<Rightarrow> string list \<Rightarrow> sh_config \<Rightarrow> unit io" where
  "run_rm env args s =
     (if length args \<noteq> 1 then
        then_io (console_error (Invalid_args ''now certs rm <id | cn>'')) (return_exit env 1)
      else
        bind_io (getCertIdCn env (arg0 args) s) (\<lambda>found.
          case found of
            None \<Rightarrow> return_exit env 1
          | Some cert \<Rightarrow>
              bind_io (readConfirmation env cert
                         (''The following certificate will be removed permanently'' @ [CHR 0x0A])) (\<lambda>yes.
                if \<not> yes then then_io (console_error User_abort) (return_exit env 0)
                else
                  then_io (call (Api_delete (cn cert)) (certs_delete env (cn cert)))
                    (console_log (Success ''removed'' (cn cert) (uid cert))))))"

definition run_invalid :: "env \<Rightarrow> unit io" where
  "run_invalid env = block [console_error Invalid_subcommand, emit Help, exit_stmt env 1]"

text \<open>\<^verbatim>\<open>run\<close> reads the module variables \<^verbatim>\<open>argv\<close> and \<^verbatim>\<open>subcommand\<close> that
  \<^verbatim>\<open>main\<close> has set; here they are arguments. The token, the API address and the debug
  flag only reach the constructor of the client. The last statement,
  \<^verbatim>\<open>return certs.close()\<close>, is reached by the branches that complete normally.\<close>

definition run :: "env \<Rightarrow> argv \<Rightarrow> string option \<Rightarrow> sh_config \<Rightarrow> unit io" where
  "run env av subcommand s =
     then_io (emit New_certs)
       (then_io
          (let args = drop 1 (positional av) in
           if subcommand = Some ''ls'' \<or> subcommand = Some ''list'' then run_ls env args s
           else if subcommand = Some ''create'' then run_create env av args
           else if subcommand = Some ''renew'' then run_renew env args s
           else if subcommand = Some ''replace'' then run_replace env av args s
           else if subcommand = Some ''rm'' \<or> subcommand = Some ''remove'' then run_rm env args s
           else run_invalid env)
          (call Api_close (certs_close env)))"

subsection \<open>The entry points\<close>

text \<open>The value of a call of \<^verbatim>\<open>run\<close>: an early \<^verbatim>\<open>return\<close> is a return like the last
  one.\<close>

definition returned :: "unit io \<Rightarrow> unit io" where
  "returned m = (case m of (tr, Return) \<Rightarrow> (tr, Normal ()) | (tr, c) \<Rightarrow> (tr, c))"

definition try_catch :: "unit io \<Rightarrow> (error \<Rightarrow> unit io) \<Rightarrow> unit io" where
  "try_catch m handler =
     (case m of
        (tr, Throw e) \<Rightarrow> (case handler e of (tr', c) \<Rightarrow> (tr @ tr', c))
      | (tr, c) \<Rightarrow> (tr, c))"

text \<open>\<^verbatim>\<open>argv = mri(ctx.argv.slice(2), ...)\<close> followed by
  \<^verbatim>\<open>argv._ = argv._.slice(1)\<close>.\<close>

definition parse_argv :: "env \<Rightarrow> ctx \<Rightarrow> argv" where
  "parse_argv env c =
     (let parsed = mri env (drop 2 (ctx_argv c))
      in parsed\<lparr>positional := drop 1 (positional parsed)\<rparr>)"

definition main :: "env \<Rightarrow> ctx \<Rightarrow> unit io" where
  "main env c =
     (let av = parse_argv env c;
          subcommand = arg0 (positional av)
      in then_io
           (if help_opt av \<or> \<not> truthy subcommand then then_io (emit Help) (await_exit env 0)
            else unit_io ())
           (case find (\<lambda>item. provider item = ''sh'') (credentials c) of
              None \<Rightarrow> ([], Throw Type_error)
            | Some item \<Rightarrow>
                try_catch (returned (run env av subcommand (sh c)))
                  (\<lambda>err. then_io (emit (Handle_error err)) (exit_stmt env 1))))"

text \<open>\<^verbatim>\<open>module.exports\<close>: what \<^verbatim>\<open>main\<close> throws ends the process at once.\<close>

definition certs_command :: "env \<Rightarrow> ctx \<Rightarrow> unit io" where
  "certs_command env c =
     try_catch (main env c)
       (\<lambda>err. then_io (emit (Handle_error err)) ([Process_exit 1], Never))"

subsection \<open>Observations on a trace\<close>

fun exit_request :: "event \<Rightarrow> nat option" where
  "exit_request (Exit code) = Some code"
| "exit_request (Process_exit code) = Some code"
| "exit_request _ = None"

definition exit_requests :: "event list \<Rightarrow> nat list" where
  "exit_requests tr = List.map_filter exit_request tr"

text \<open>The exit code of the process: that of the first request to end it; a process
  that ends with no request ends with 0.\<close>

definition exit_status :: "event list \<Rightarrow> nat" where
  "exit_status tr = (case exit_requests tr of [] \<Rightarrow> 0 | code # _ \<Rightarrow> code)"

fun is_api_call :: "event \<Rightarrow> bool" where
  "is_api_call Api_ls = True"
| "is_api_call (Api_create _) = True"
| "is_api_call (Api_put _ _ _ _) = True"
| "is_api_call (Api_renew _) = True"
| "is_api_call (Api_delete _) = True"
| "is_api_call _ = False"

fun is_mutating :: "event \<Rightarrow> bool" where
  "is_mutating (Api_create _) = True"
| "is_mutating (Api_put _ _ _ _) = True"
| "is_mutating (Api_renew _) = True"
| "is_mutating (Api_delete _) = True"
| "is_mutating _ = False"

fun is_file_read :: "event \<Rightarrow> bool" where
  "is_file_read (Read_file _) = True"
| "is_file_read _ = False"

fun is_print :: "event \<Rightarrow> bool" where
  "is_print (Console_error _) = True"
| "is_print (Console_log _) = True"
| "is_print (Stdout_write _) = True"
| "is_print Help = True"
| "is_print _ = False"

fun table_row :: "event \<Rightarrow> cert option" where
  "table_row (Stdout_write (Table_row w c)) = Some c"
| "table_row _ = None"

definition printed_rows :: "event list \<Rightarrow> cert list" where
  "printed_rows tr = List.map_filter table_row tr"

text \<open>The mutating call that belongs to a subcommand, and the certificate name a mutating
  call is made for.\<close>

fun mutation_of :: "string option \<Rightarrow> event \<Rightarrow> bool" where
  "mutation_of sub (Api_renew _) = (sub = Some ''renew'')"
| "mutation_of sub (Api_put _ _ _ _) = (sub = Some ''replace'')"
| "mutation_of sub (Api_delete _) = (sub = Some ''rm'' \<or> sub = Some ''remove'')"
| "mutation_of sub _ = False"

fun target :: "event \<Rightarrow> string option" where
  "target (Api_create name) = Some name"
| "target (Api_put name _ _ _) = Some name"
| "target (Api_renew name) = Some name"
| "target (Api_delete name) = Some name"
| "target _ = None"

text \<open>The subcommands the \<^verbatim>\<open>if\<close> chain of \<^verbatim>\<open>run\<close> knows.\<close>

definition recognized :: "string option \<Rightarrow> bool" where
  "recognized sub =
     (sub = Some ''ls'' \<or> sub = Some ''list'' \<or> sub = Some ''create'' \<or> sub = Some ''renew''
      \<or> sub = Some ''replace'' \<or> sub = Some ''rm'' \<or> sub = Some ''remove'')"

text \<open>What every branch of a known subcommand keeps: it never closes the client itself,
  an early return comes right after a request to exit, and a branch that goes on to the
  last statement has requested no exit.\<close>

definition branch_ok :: "'a io \<Rightarrow> bool" where
  "branch_ok m =
     (Api_close \<notin> set (fst m)
      \<and> (snd m = Return \<longrightarrow> fst m \<noteq> [] \<and> (\<exists>code. last (fst m) = Exit code))
      \<and> ((\<exists>x. snd m = Normal x) \<longrightarrow> exit_requests (fst m) = []))"

subsection \<open>Concrete inputs\<close>

text \<open>An account with three certificates, in the order \<^verbatim>\<open>b.com, a.com, c.com\<close>, a
  comparison of strings by character codes in the place of \<^verbatim>\<open>localeCompare\<close>, and a
  parser for command lines without options.\<close>

definition cert_a :: cert where
  "cert_a = \<lparr>uid = ''uid_a'', cn = ''a.com'', created = 100, expiration = 900, autoRenew = True\<rparr>"

definition cert_b :: cert where
  "cert_b = \<lparr>uid = ''uid_b'', cn = ''b.com'', created = 200, expiration = 800, autoRenew = False\<rparr>"

definition cert_c :: cert where
  "cert_c = \<lparr>uid = ''uid_c'', cn = ''c.com'', created = 300, expiration = 700, autoRenew = True\<rparr>"

fun compare_codes :: "string \<Rightarrow> string \<Rightarrow> int" where
  "compare_codes [] [] = 0"
| "compare_codes [] (y # ys) = - 1"
| "compare_codes (x # xs) [] = 1"
| "compare_codes (x # xs) (y # ys) =
     (if (of_char x :: nat) < of_char y then - 1
      else if (of_char y :: nat) < of_char x then 1
      else compare_codes xs ys)"

definition mri_plain :: "string list \<Rightarrow> argv" where
  "mri_plain xs =
     \<lparr>positional = xs, help_opt = False, debug_opt = False,
      crt = None, key = None, ca = None\<rparr>"

definition env0 :: env where
  "env0 =
     \<lparr>exit_gives = Returns_undefined,
      supportsColor = False,
      localeCompare = compare_codes,
      mri = mri_plain,
      certs_ls = Inr [cert_b, cert_a, cert_c],
      certs_create = (\<lambda>name. Inr (Some \<lparr>uid = ''uid_new'', cn = name, created = 400,
                                        expiration = 990, autoRenew = True\<rparr>)),
      certs_put = (\<lambda>name c k a. Inr (Some \<lparr>uid = ''uid_put'', cn = name, created = 400,
                                          expiration = 990, autoRenew = False\<rparr>)),
      certs_renew = (\<lambda>name. Inr ()),
      certs_delete = (\<lambda>name. Inr ()),
      certs_close = Inr (),
      readFileSync = (\<lambda>file. Inr (''contents of '' @ file)),
      stdin_data = Some ''y''\<rparr>"

definition sh0 :: sh_config where
  "sh0 = \<lparr>currentTeam = None, user = \<lparr>username = Some ''alice'', email = None\<rparr>\<rparr>"

definition ctx0 :: "string list \<Rightarrow> ctx" where
  "ctx0 xs =
     \<lparr>ctx_argv = ''node'' # ''now'' # xs, apiUrl = ''https://api.zeit.co'',
      credentials = [\<lparr>provider = ''sh'', token = ''secret''\<rparr>], sh = sh0\<rparr>"

definition env_issued :: env where
  "env_issued =
     env0\<lparr>certs_create := (\<lambda>name. Inr None), certs_put := (\<lambda>name c k a. Inr None)\<rparr>"

definition env_answer :: "string \<Rightarrow> env" where
  "env_answer d = env0\<lparr>stdin_data := Some d\<rparr>"

definition argv_custom :: "string list \<Rightarrow> argv" where
  "argv_custom xs = (mri_plain xs)\<lparr>crt := Some ''a.crt'', key := Some ''a.key''\<rparr>"

text \<open>\<^verbatim>\<open>now certs create x.com --crt\<close>: the option is given, its value is empty.\<close>

definition argv_crt_empty :: argv where
  "argv_crt_empty = (mri_plain [''create'', ''x.com''])\<lparr>crt := Some []\<rparr>"

definition argv_crt_only :: "string list \<Rightarrow> argv" where
  "argv_crt_only xs = (mri_plain xs)\<lparr>crt := Some ''a.crt''\<rparr>"

text \<open>A comparison in the manner of the collation \<^verbatim>\<open>localeCompare\<close> uses, which orders
  letters before it looks at their case: the lower-case forms are compared by character
  codes. \<^verbatim>\<open>a.com\<close> comes before \<^verbatim>\<open>B.com\<close>, which by character codes comes first.\<close>

definition compare_folded :: "string \<Rightarrow> string \<Rightarrow> int" where
  "compare_folded a b = compare_codes (toLowerCase a) (toLowerCase b)"

definition cert_upper_b :: cert where
  "cert_upper_b =
     \<lparr>uid = ''uid_B'', cn = ''B.com'', created = 200, expiration = 800, autoRenew = False\<rparr>"

definition env_collated :: env where
  "env_collated =
     env0\<lparr>localeCompare := compare_folded, certs_ls := Inr [cert_upper_b, cert_a, cert_c]\<rparr>"

section \<open>Properties\<close>

lemmas io_defs = unit_io_def bind_io_def then_io_def block_def emit_def call_def
  console_error_def console_log_def stdout_write_def exit_stmt_def await_exit_def
  return_exit_def

lemmas obs_defs = exit_requests_def exit_status_def

subsection \<open>Resolution of a certificate\<close>

lemma find_filter: "find P xs = (case filter P xs of [] \<Rightarrow> None | x # _ \<Rightarrow> Some x)"
  by (induction xs) auto

lemma getCertIdCn_find:
  assumes "certs_ls env = Inr list"
  shows "getCertIdCn env idOrCn s =
           (case find (\<lambda>cert. Some (uid cert) = idOrCn \<or> Some (cn cert) = idOrCn) list of
              None \<Rightarrow> ([Api_ls, Console_error (Not_found idOrCn (scope s))], Normal None)
            | Some c \<Rightarrow> ([Api_ls], Normal (Some c)))"
  using assms by (simp add: getCertIdCn_def io_defs find_filter split: list.splits)

subsection \<open>Arity of create\<close>

text \<open>
  Claim C6. \<^verbatim>\<open>create\<close> takes exactly one positional argument, whatever the certificate
  options are: with none, or with two or more, the dispatcher prints the usage error,
  requests exit code 1 and makes no call of the API.
\<close>

theorem create_wrong_arity:
  assumes "length (drop 1 (positional av)) \<noteq> 1"
  shows "fst (run env av (Some ''create'') s) =
           [New_certs, Console_error (Invalid_args ''now certs create <cn>''), Exit 1]
         \<and> filter is_api_call (fst (run env av (Some ''create'') s)) = []
         \<and> exit_status (fst (run env av (Some ''create'') s)) = 1"
  using assms by (simp add: run_def run_create_def io_defs obs_defs)

theorem create_wrong_arity_witness:
  "length (drop 1 (positional (mri_plain [''create'', ''a.com'', ''b.com'']))) \<noteq> 1
   \<and> fst (run env0 (mri_plain [''create'', ''a.com'', ''b.com'']) (Some ''create'') sh0) =
       [New_certs, Console_error (Invalid_args ''now certs create <cn>''), Exit 1]
   \<and> filter is_api_call
       (fst (run env0 (mri_plain [''create'', ''a.com'', ''b.com'']) (Some ''create'') sh0)) = []
   \<and> exit_status
       (fst (run env0 (mri_plain [''create'', ''a.com'', ''b.com'']) (Some ''create'') sh0)) = 1"
proof -
  have h: "length (drop 1 (positional (mri_plain [''create'', ''a.com'', ''b.com'']))) \<noteq> 1"
    by (simp add: mri_plain_def)
  from h create_wrong_arity [OF h, of env0 sh0] show ?thesis by blast
qed

lemma readConfirmation_data:
  assumes "stdin_data env = Some d"
  shows "readConfirmation env c msg =
           ([Stdout_write (Confirm_msg msg), Stdout_write (Confirm_table c),
             Stdout_write Are_you_sure, Stdin_pause],
            Normal (toLowerCase (trim d) = ''y''))"
  using assms by (simp add: readConfirmation_def io_defs)

subsection \<open>Removal of an unknown certificate\<close>

text \<open>
  Claim C5. For \<^verbatim>\<open>rm <idOrCn>\<close> (or \<^verbatim>\<open>remove\<close>) the resolution fetches the list and
  yields its first entry whose \<open>uid\<close> or \<open>cn\<close> is the argument. When no entry matches,
  the dispatcher prints the not-found error, requests exit code 1 and never calls
  \<^verbatim>\<open>delete\<close>.
\<close>

theorem rm_not_found:
  assumes "drop 1 (positional av) = [idOrCn]"
    and "certs_ls env = Inr list"
    and "sub = Some ''rm'' \<or> sub = Some ''remove''"
  shows "snd (getCertIdCn env (Some idOrCn) s) =
           Normal (find (\<lambda>cert. uid cert = idOrCn \<or> cn cert = idOrCn) list)
         \<and> (find (\<lambda>cert. uid cert = idOrCn \<or> cn cert = idOrCn) list = None \<longrightarrow>
              fst (run env av sub s) =
                [New_certs, Api_ls, Console_error (Not_found (Some idOrCn) (scope s)), Exit 1]
              \<and> exit_status (fst (run env av sub s)) = 1
              \<and> filter is_mutating (fst (run env av sub s)) = [])"
  using assms
  by (auto simp: getCertIdCn_find run_def run_rm_def arg0_def io_defs obs_defs
      split: option.splits)

theorem rm_not_found_witness:
  "find (\<lambda>cert. uid cert = ''nope.com'' \<or> cn cert = ''nope.com'') [cert_b, cert_a, cert_c] = None
   \<and> snd (getCertIdCn env0 (Some ''nope.com'') sh0) =
       Normal (find (\<lambda>cert. uid cert = ''nope.com'' \<or> cn cert = ''nope.com'')
                 [cert_b, cert_a, cert_c])
   \<and> fst (run env0 (mri_plain [''rm'', ''nope.com'']) (Some ''rm'') sh0) =
       [New_certs, Api_ls, Console_error (Not_found (Some ''nope.com'') (scope sh0)), Exit 1]
   \<and> exit_status (fst (run env0 (mri_plain [''rm'', ''nope.com'']) (Some ''rm'') sh0)) = 1
   \<and> filter is_mutating (fst (run env0 (mri_plain [''rm'', ''nope.com'']) (Some ''rm'') sh0)) = []"
proof -
  have args: "drop 1 (positional (mri_plain [''rm'', ''nope.com''])) = [''nope.com'']"
    by (simp add: mri_plain_def)
  have ls: "certs_ls env0 = Inr [cert_b, cert_a, cert_c]"
    by (simp add: env0_def)
  have sub: "Some ''rm'' = Some ''rm'' \<or> Some ''rm'' = Some ''remove''"
    by simp
  have none: "find (\<lambda>cert. uid cert = ''nope.com'' \<or> cn cert = ''nope.com'')
                [cert_b, cert_a, cert_c] = None"
    by (simp add: cert_a_def cert_b_def cert_c_def)
  from none rm_not_found [OF args ls sub, of sh0] show ?thesis
    by blast
qed

subsection \<open>A certificate that is already issued\<close>

text \<open>
  Claim C8. For \<^verbatim>\<open>create <cn>\<close>, when the call of the API (\<^verbatim>\<open>create\<close>, or
  \<^verbatim>\<open>put\<close> for a custom certificate) answers with a falsy value, the dispatcher
  requests exit code 1 right after the call and prints nothing of its own.
\<close>

theorem create_already_issued:
  assumes args: "drop 1 (positional av) = [name]"
    and flags: "truthy (crt av) = truthy (key av)" "truthy (ca av) \<longrightarrow> truthy (crt av)"
    and files: "\<forall>file. \<exists>text. readFileSync env file = Inr text"
    and create: "certs_create env name = Inr None"
    and put: "\<forall>c k a. certs_put env name c k a = Inr None"
  shows "filter is_print (fst (run env av (Some ''create'') s)) = []
         \<and> exit_requests (fst (run env av (Some ''create'') s)) = [1]
         \<and> last (fst (run env av (Some ''create'') s)) = Exit 1
         \<and> length (filter is_mutating (fst (run env av (Some ''create'') s))) = 1"
proof -
  obtain c' where c': "readFileSync env (the (crt av)) = Inr c'" using files by blast
  obtain k' where k': "readFileSync env (the (key av)) = Inr k'" using files by blast
  obtain a' where a': "readFileSync env (the (ca av)) = Inr a'" using files by blast
  show ?thesis
    using args flags create put c' k' a'
    by (simp add: run_def run_create_def readX509File_def io_defs obs_defs)
qed

theorem create_already_issued_witness:
  "drop 1 (positional (mri_plain [''create'', ''a.com''])) = [''a.com'']
   \<and> certs_create env_issued ''a.com'' = Inr None
   \<and> filter is_print (fst (run env_issued (mri_plain [''create'', ''a.com'']) (Some ''create'') sh0)) = []
   \<and> exit_requests (fst (run env_issued (mri_plain [''create'', ''a.com'']) (Some ''create'') sh0)) = [1]
   \<and> last (fst (run env_issued (mri_plain [''create'', ''a.com'']) (Some ''create'') sh0)) = Exit 1
   \<and> length (filter is_mutating
        (fst (run env_issued (mri_plain [''create'', ''a.com'']) (Some ''create'') sh0))) = 1"
proof -
  have args: "drop 1 (positional (mri_plain [''create'', ''a.com''])) = [''a.com'']"
    by (simp add: mri_plain_def)
  have f1: "truthy (crt (mri_plain [''create'', ''a.com''])) =
            truthy (key (mri_plain [''create'', ''a.com'']))"
    by (simp add: mri_plain_def truthy_def)
  have f2: "truthy (ca (mri_plain [''create'', ''a.com''])) \<longrightarrow>
            truthy (crt (mri_plain [''create'', ''a.com'']))"
    by (simp add: mri_plain_def truthy_def)
  have files: "\<forall>file. \<exists>text. readFileSync env_issued file = Inr text"
    by (simp add: env_issued_def env0_def)
  have create: "certs_create env_issued ''a.com'' = Inr None"
    by (simp add: env_issued_def env0_def)
  have put: "\<forall>c k a. certs_put env_issued ''a.com'' c k a = Inr None"
    by (simp add: env_issued_def env0_def)
  from args create create_already_issued [OF args f1 f2 files create put, of sh0]
  show ?thesis by blast
qed

lemma find_never: "find (\<lambda>x. False) xs = None"
  by (induction xs) auto

subsection \<open>Replace without a positional argument\<close>

text \<open>
  Claim C9. \<^verbatim>\<open>replace\<close> does not check the number of positional arguments: only the
  first one is looked at. With \<^verbatim>\<open>--crt\<close> and \<^verbatim>\<open>--key\<close> given and no positional
  argument, the certificate files are read, the list is fetched, and the resolution of
  \<^verbatim>\<open>undefined\<close> fails with the not-found error and exit code 1, not a usage error.
\<close>

theorem replace_without_positional:
  assumes args: "drop 1 (positional av) = []"
    and crt: "crt av = Some crt_file" "crt_file \<noteq> []"
    and key: "key av = Some key_file" "key_file \<noteq> []"
    and files: "\<forall>file. \<exists>text. readFileSync env file = Inr text"
    and ls: "certs_ls env = Inr list"
  shows "fst (run env av (Some ''replace'') s) =
           [New_certs, Read_file crt_file, Read_file key_file]
           @ (if truthy (ca av) then [Read_file (the (ca av))] else [])
           @ [Api_ls, Console_error (Not_found None (scope s)), Exit 1]
         \<and> exit_status (fst (run env av (Some ''replace'') s)) = 1
         \<and> (\<forall>args. run_replace env av args s = run_replace env av (take 1 args) s)"
proof -
  obtain c' where c': "readFileSync env crt_file = Inr c'" using files by blast
  obtain k' where k': "readFileSync env key_file = Inr k'" using files by blast
  obtain a' where a': "readFileSync env (the (ca av)) = Inr a'" using files by blast
  have a0: "arg0 (take 1 args) = arg0 args" for args :: "string list"
    by (cases args) (simp_all add: arg0_def)
  have tr: "fst (run env av (Some ''replace'') s) =
           [New_certs, Read_file crt_file, Read_file key_file]
           @ (if truthy (ca av) then [Read_file (the (ca av))] else [])
           @ [Api_ls, Console_error (Not_found None (scope s)), Exit 1]"
    using args crt key ls c' k' a'
    by (simp add: run_def run_replace_def readX509File_def getCertIdCn_find arg0_def
        truthy_def io_defs find_never)
  have st: "exit_status (fst (run env av (Some ''replace'') s)) = 1"
    unfolding tr by (simp add: obs_defs)
  have ar: "\<forall>args. run_replace env av args s = run_replace env av (take 1 args) s"
    unfolding run_replace_def a0 by (rule allI) (rule refl)
  from tr st ar show ?thesis by blast
qed

theorem replace_without_positional_witness:
  "drop 1 (positional ((mri_plain [''replace''])\<lparr>crt := Some ''a.crt'', key := Some ''a.key''\<rparr>)) = []
   \<and> fst (run env0 ((mri_plain [''replace''])\<lparr>crt := Some ''a.crt'', key := Some ''a.key''\<rparr>)
             (Some ''replace'') sh0) =
       [New_certs, Read_file ''a.crt'', Read_file ''a.key'']
       @ (if truthy (ca ((mri_plain [''replace''])\<lparr>crt := Some ''a.crt'', key := Some ''a.key''\<rparr>))
          then [Read_file (the (ca ((mri_plain [''replace''])\<lparr>crt := Some ''a.crt'', key := Some ''a.key''\<rparr>)))]
          else [])
       @ [Api_ls, Console_error (Not_found None (scope sh0)), Exit 1]
   \<and> exit_status (fst (run env0 ((mri_plain [''replace''])\<lparr>crt := Some ''a.crt'', key := Some ''a.key''\<rparr>)
             (Some ''replace'') sh0)) = 1"
proof -
  let ?av = "(mri_plain [''replace''])\<lparr>crt := Some ''a.crt'', key := Some ''a.key''\<rparr>"
  have args: "drop 1 (positional ?av) = []" by (simp add: mri_plain_def)
  have c: "crt ?av = Some ''a.crt''" "''a.crt'' \<noteq> []" by simp_all
  have k: "key ?av = Some ''a.key''" "''a.key'' \<noteq> []" by simp_all
  have files: "\<forall>file. \<exists>text. readFileSync env0 file = Inr text" by (simp add: env0_def)
  have ls: "certs_ls env0 = Inr [cert_b, cert_a, cert_c]" by (simp add: env0_def)
  from args replace_without_positional [OF args c k files ls, of sh0]
  show ?thesis by blast
qed

subsection \<open>The paths on which a certificate is resolved\<close>

text \<open>The whole trace of \<^verbatim>\<open>renew\<close>, \<^verbatim>\<open>rm\<close> and \<^verbatim>\<open>replace\<close> once the list holds a match
  and standard input delivers a chunk.\<close>

lemma run_renew_found:
  assumes "drop 1 (positional av) = [a]"
    and "certs_ls env = Inr list"
    and "find (\<lambda>cert. uid cert = a \<or> cn cert = a) list = Some c"
    and "stdin_data env = Some d"
  shows "run env av (Some ''renew'') s =
           (if toLowerCase (trim d) = ''y'' then
              (case certs_renew env (cn c) of
                 Inl e \<Rightarrow>
                   ([New_certs, Api_ls,
                     Stdout_write (Confirm_msg (''The following certificate will be renewed'' @ [CHR 0x0A])),
                     Stdout_write (Confirm_table c), Stdout_write Are_you_sure, Stdin_pause,
                     Api_renew (cn c)], Throw e)
               | Inr _ \<Rightarrow>
                   ([New_certs, Api_ls,
                     Stdout_write (Confirm_msg (''The following certificate will be renewed'' @ [CHR 0x0A])),
                     Stdout_write (Confirm_table c), Stdout_write Are_you_sure, Stdin_pause,
                     Api_renew (cn c), Console_log (Success ''renewed'' (cn c) (uid c)),
                     Api_close],
                    case certs_close env of Inl e \<Rightarrow> Throw e | Inr _ \<Rightarrow> Normal ()))
            else
              ([New_certs, Api_ls,
                Stdout_write (Confirm_msg (''The following certificate will be renewed'' @ [CHR 0x0A])),
                Stdout_write (Confirm_table c), Stdout_write Are_you_sure, Stdin_pause,
                Console_error User_abort, Exit 0],
               if exit_gives env = Returns_undefined then Return else Never))"
  using assms
  by (simp add: run_def run_renew_def getCertIdCn_find readConfirmation_data arg0_def io_defs
      split: sum.splits)

lemma run_rm_found:
  assumes "drop 1 (positional av) = [a]"
    and "certs_ls env = Inr list"
    and "find (\<lambda>cert. uid cert = a \<or> cn cert = a) list = Some c"
    and "stdin_data env = Some d"
    and "sub = Some ''rm'' \<or> sub = Some ''remove''"
  shows "run env av sub s =
           (if toLowerCase (trim d) = ''y'' then
              (case certs_delete env (cn c) of
                 Inl e \<Rightarrow>
                   ([New_certs, Api_ls,
                     Stdout_write (Confirm_msg (''The following certificate will be removed permanently'' @ [CHR 0x0A])),
                     Stdout_write (Confirm_table c), Stdout_write Are_you_sure, Stdin_pause,
                     Api_delete (cn c)], Throw e)
               | Inr _ \<Rightarrow>
                   ([New_certs, Api_ls,
                     Stdout_write (Confirm_msg (''The following certificate will be removed permanently'' @ [CHR 0x0A])),
                     Stdout_write (Confirm_table c), Stdout_write Are_you_sure, Stdin_pause,
                     Api_delete (cn c), Console_log (Success ''removed'' (cn c) (uid c)),
                     Api_close],
                    case certs_close env of Inl e \<Rightarrow> Throw e | Inr _ \<Rightarrow> Normal ()))
            else
              ([New_certs, Api_ls,
                Stdout_write (Confirm_msg (''The following certificate will be removed permanently'' @ [CHR 0x0A])),
                Stdout_write (Confirm_table c), Stdout_write Are_you_sure, Stdin_pause,
                Console_error User_abort, Exit 0],
               if exit_gives env = Returns_undefined then Return else Never))"
  using assms
  by (auto simp add: run_def run_rm_def getCertIdCn_find readConfirmation_data arg0_def io_defs
      split: sum.splits)

lemma run_replace_found:
  assumes "arg0 (drop 1 (positional av)) = Some a"
    and "certs_ls env = Inr list"
    and "find (\<lambda>cert. uid cert = a \<or> cn cert = a) list = Some c"
    and "stdin_data env = Some d"
    and "crt av = Some crt_file" "crt_file \<noteq> []"
    and "key av = Some key_file" "key_file \<noteq> []"
    and "readFileSync env crt_file = Inr crt'"
    and "readFileSync env key_file = Inr key'"
    and "if truthy (ca av) then readFileSync env (the (ca av)) = Inr ca' else ca' = []"
  shows "run env av (Some ''replace'') s =
           (if toLowerCase (trim d) = ''y'' then
              (case certs_put env (cn c) crt' key' ca' of
                 Inl e \<Rightarrow>
                   ([New_certs, Read_file crt_file, Read_file key_file]
                    @ (if truthy (ca av) then [Read_file (the (ca av))] else [])
                    @ [Api_ls,
                     Stdout_write (Confirm_msg (''The following certificate will be replaced permanently'' @ [CHR 0x0A])),
                     Stdout_write (Confirm_table c), Stdout_write Are_you_sure, Stdin_pause,
                     Api_put (cn c) crt' key' ca'], Throw e)
               | Inr _ \<Rightarrow>
                   ([New_certs, Read_file crt_file, Read_file key_file]
                    @ (if truthy (ca av) then [Read_file (the (ca av))] else [])
                    @ [Api_ls,
                     Stdout_write (Confirm_msg (''The following certificate will be replaced permanently'' @ [CHR 0x0A])),
                     Stdout_write (Confirm_table c), Stdout_write Are_you_sure, Stdin_pause,
                     Api_put (cn c) crt' key' ca', Console_log (Success ''replaced'' (cn c) (uid c)),
                     Api_close],
                    case certs_close env of Inl e \<Rightarrow> Throw e | Inr _ \<Rightarrow> Normal ()))
            else
              ([New_certs, Read_file crt_file, Read_file key_file]
                @ (if truthy (ca av) then [Read_file (the (ca av))] else [])
                @ [Api_ls,
                Stdout_write (Confirm_msg (''The following certificate will be replaced permanently'' @ [CHR 0x0A])),
                Stdout_write (Confirm_table c), Stdout_write Are_you_sure, Stdin_pause,
                Console_error User_abort, Exit 0],
               if exit_gives env = Returns_undefined then Return else Never))"
  using assms
  by (simp add: run_def run_replace_def readX509File_def getCertIdCn_find readConfirmation_data
      truthy_def io_defs split: sum.splits)

lemma replace_inputs:
  assumes "truthy (crt av)" "truthy (key av)"
    and "\<forall>file. \<exists>text. readFileSync env file = Inr text"
  obtains crt_file key_file crt' key' ca' where
    "crt av = Some crt_file" "crt_file \<noteq> []" "key av = Some key_file" "key_file \<noteq> []"
    "readFileSync env crt_file = Inr crt'" "readFileSync env key_file = Inr key'"
    "if truthy (ca av) then readFileSync env (the (ca av)) = Inr ca' else ca' = []"
proof -
  from assms(1) obtain cf where cf: "crt av = Some cf" "cf \<noteq> []"
    by (auto simp: truthy_def split: option.splits)
  from assms(2) obtain kf where kf: "key av = Some kf" "kf \<noteq> []"
    by (auto simp: truthy_def split: option.splits)
  from assms(3) obtain c' where c': "readFileSync env cf = Inr c'" by blast
  from assms(3) obtain k' where k': "readFileSync env kf = Inr k'" by blast
  from assms(3) obtain a' where
    a': "if truthy (ca av) then readFileSync env (the (ca av)) = Inr a' else a' = []"
    by (cases "truthy (ca av)") auto
  from cf kf c' k' a' that show thesis by blast
qed

subsection \<open>The confirmation prompt\<close>

text \<open>
  Claim C4. At the prompt of \<^verbatim>\<open>renew\<close>, \<^verbatim>\<open>replace\<close> and \<^verbatim>\<open>rm\<close>, a chunk of input
  that is \<^verbatim>\<open>y\<close> once trimmed and put in lower case makes the dispatcher issue the
  mutating call of the subcommand, and that is the only mutating call of the run; any
  other chunk makes it print the abort, request exit code 0 and issue no mutating call.
\<close>

theorem confirmation_decides:
  assumes args: "drop 1 (positional av) = [a]"
    and ls: "certs_ls env = Inr list"
    and found: "find (\<lambda>cert. uid cert = a \<or> cn cert = a) list = Some c"
    and stdin: "stdin_data env = Some d"
    and sub: "sub = Some ''renew'' \<or> sub = Some ''replace'' \<or> sub = Some ''rm'' \<or> sub = Some ''remove''"
    and ready: "sub = Some ''replace'' \<longrightarrow>
                  truthy (crt av) \<and> truthy (key av)
                  \<and> (\<forall>file. \<exists>text. readFileSync env file = Inr text)"
  shows "(toLowerCase (trim d) = ''y'' \<longrightarrow>
            (\<exists>e. filter is_mutating (fst (run env av sub s)) = [e] \<and> mutation_of sub e))
         \<and> (toLowerCase (trim d) \<noteq> ''y'' \<longrightarrow>
               filter is_mutating (fst (run env av sub s)) = []
               \<and> exit_requests (fst (run env av sub s)) = [0]
               \<and> last (fst (run env av sub s)) = Exit 0)"
proof -
  consider (renew) "sub = Some ''renew''" | (replace) "sub = Some ''replace''"
    | (rm) "sub = Some ''rm'' \<or> sub = Some ''remove''"
    using sub by blast
  then show ?thesis
  proof cases
    case renew
    show ?thesis
      unfolding renew run_renew_found [OF args ls found stdin]
      by (simp add: obs_defs split: sum.splits)
  next
    case rm
    show ?thesis
      unfolding run_rm_found [OF args ls found stdin rm]
      using rm by (auto simp: obs_defs split: sum.splits)
  next
    case replace
    with ready have r: "truthy (crt av)" "truthy (key av)"
      "\<forall>file. \<exists>text. readFileSync env file = Inr text" by simp_all
    from args have a0: "arg0 (drop 1 (positional av)) = Some a" by (simp add: arg0_def)
    from r obtain crt_file key_file crt' key' ca' where
      i: "crt av = Some crt_file" "crt_file \<noteq> []" "key av = Some key_file" "key_file \<noteq> []"
         "readFileSync env crt_file = Inr crt'" "readFileSync env key_file = Inr key'"
         "if truthy (ca av) then readFileSync env (the (ca av)) = Inr ca' else ca' = []"
      by (rule replace_inputs)
    show ?thesis
      unfolding replace run_replace_found [OF a0 ls found stdin i]
      by (simp add: obs_defs split: sum.splits)
  qed
qed

theorem confirmation_decides_witness:
  "toLowerCase (trim ('' Y  '' @ [CHR 0x0A])) = ''y''
   \<and> (\<exists>e. filter is_mutating
             (fst (run (env_answer ('' Y  '' @ [CHR 0x0A])) (mri_plain [''renew'', ''uid_a''])
                    (Some ''renew'') sh0)) = [e]
           \<and> mutation_of (Some ''renew'') e)
   \<and> toLowerCase (trim ''yes'') \<noteq> ''y''
   \<and> filter is_mutating
        (fst (run (env_answer ''yes'') (argv_custom [''replace'', ''uid_a''])
               (Some ''replace'') sh0)) = []
   \<and> exit_requests
        (fst (run (env_answer ''yes'') (argv_custom [''replace'', ''uid_a''])
               (Some ''replace'') sh0)) = [0]
   \<and> last (fst (run (env_answer ''yes'') (argv_custom [''replace'', ''uid_a''])
                   (Some ''replace'') sh0)) = Exit 0"
proof -
  have yes: "toLowerCase (trim ('' Y  '' @ [CHR 0x0A])) = ''y''"
    by code_simp
  have no: "toLowerCase (trim ''yes'') \<noteq> ''y''"
    by code_simp
  have found: "find (\<lambda>cert. uid cert = ''uid_a'' \<or> cn cert = ''uid_a'')
                 [cert_b, cert_a, cert_c] = Some cert_a"
    by (simp add: cert_a_def cert_b_def cert_c_def)
  have ls: "certs_ls (env_answer d) = Inr [cert_b, cert_a, cert_c]" for d
    by (simp add: env_answer_def env0_def)
  have stdin: "stdin_data (env_answer d) = Some d" for d
    by (simp add: env_answer_def env0_def)
  have args1: "drop 1 (positional (mri_plain [''renew'', ''uid_a''])) = [''uid_a'']"
    by (simp add: mri_plain_def)
  have args2: "drop 1 (positional (argv_custom [''replace'', ''uid_a''])) = [''uid_a'']"
    by (simp add: argv_custom_def mri_plain_def)
  have sub1: "Some ''renew'' = Some ''renew'' \<or> Some ''renew'' = Some ''replace''
              \<or> Some ''renew'' = Some ''rm'' \<or> Some ''renew'' = Some ''remove''"
    by simp
  have sub2: "Some ''replace'' = Some ''renew'' \<or> Some ''replace'' = Some ''replace''
              \<or> Some ''replace'' = Some ''rm'' \<or> Some ''replace'' = Some ''remove''"
    by simp
  have ready1: "Some ''renew'' = Some ''replace'' \<longrightarrow>
                  truthy (crt (mri_plain [''renew'', ''uid_a'']))
                  \<and> truthy (key (mri_plain [''renew'', ''uid_a'']))
                  \<and> (\<forall>file. \<exists>text. readFileSync (env_answer ('' Y  '' @ [CHR 0x0A])) file = Inr text)"
    by simp
  have ready2: "Some ''replace'' = Some ''replace'' \<longrightarrow>
                  truthy (crt (argv_custom [''replace'', ''uid_a'']))
                  \<and> truthy (key (argv_custom [''replace'', ''uid_a'']))
                  \<and> (\<forall>file. \<exists>text. readFileSync (env_answer ''yes'') file = Inr text)"
    by (simp add: argv_custom_def truthy_def env_answer_def env0_def)
  from yes no
    confirmation_decides [OF args1 ls found stdin sub1 ready1, of sh0]
    confirmation_decides [OF args2 ls found stdin sub2 ready2, of sh0]
  show ?thesis by blast
qed

subsection \<open>The name a mutation is made for\<close>

text \<open>
  Claim C10. When \<^verbatim>\<open>renew\<close>, \<^verbatim>\<open>replace\<close> or \<^verbatim>\<open>rm\<close> goes through, the mutating
  call is made for the \<open>cn\<close> of the resolved certificate, not for the argument of the
  user: an argument that is a \<open>uid\<close> reaches the API as the \<open>cn\<close> of that certificate.
\<close>

theorem mutation_targets_cn:
  assumes args: "drop 1 (positional av) = [a]"
    and ls: "certs_ls env = Inr list"
    and found: "find (\<lambda>cert. uid cert = a \<or> cn cert = a) list = Some c"
    and stdin: "stdin_data env = Some d"
    and yes: "toLowerCase (trim d) = ''y''"
    and sub: "sub = Some ''renew'' \<or> sub = Some ''replace'' \<or> sub = Some ''rm'' \<or> sub = Some ''remove''"
    and ready: "sub = Some ''replace'' \<longrightarrow>
                  truthy (crt av) \<and> truthy (key av)
                  \<and> (\<forall>file. \<exists>text. readFileSync env file = Inr text)"
  shows "map target (filter is_mutating (fst (run env av sub s))) = [Some (cn c)]"
proof -
  consider (renew) "sub = Some ''renew''" | (replace) "sub = Some ''replace''"
    | (rm) "sub = Some ''rm'' \<or> sub = Some ''remove''"
    using sub by blast
  then show ?thesis
  proof cases
    case renew
    show ?thesis
      unfolding renew run_renew_found [OF args ls found stdin]
      using yes by (simp split: sum.splits)
  next
    case rm
    show ?thesis
      unfolding run_rm_found [OF args ls found stdin rm]
      using yes by (simp split: sum.splits)
  next
    case replace
    with ready have r: "truthy (crt av)" "truthy (key av)"
      "\<forall>file. \<exists>text. readFileSync env file = Inr text" by simp_all
    from args have a0: "arg0 (drop 1 (positional av)) = Some a" by (simp add: arg0_def)
    from r obtain crt_file key_file crt' key' ca' where
      i: "crt av = Some crt_file" "crt_file \<noteq> []" "key av = Some key_file" "key_file \<noteq> []"
         "readFileSync env crt_file = Inr crt'" "readFileSync env key_file = Inr key'"
         "if truthy (ca av) then readFileSync env (the (ca av)) = Inr ca' else ca' = []"
      by (rule replace_inputs)
    show ?thesis
      unfolding replace run_replace_found [OF a0 ls found stdin i]
      using yes by (simp split: sum.splits)
  qed
qed

theorem mutation_targets_cn_witness:
  "find (\<lambda>cert. uid cert = ''uid_a'' \<or> cn cert = ''uid_a'') [cert_b, cert_a, cert_c] = Some cert_a
   \<and> cn cert_a = ''a.com''
   \<and> map target (filter is_mutating
        (fst (run (env_answer ''y'') (argv_custom [''replace'', ''uid_a''])
               (Some ''replace'') sh0))) =
       [Some (cn cert_a)]"
proof -
  have yes: "toLowerCase (trim ''y'') = ''y''"
    by code_simp
  have found: "find (\<lambda>cert. uid cert = ''uid_a'' \<or> cn cert = ''uid_a'')
                 [cert_b, cert_a, cert_c] = Some cert_a"
    by (simp add: cert_a_def cert_b_def cert_c_def)
  have name: "cn cert_a = ''a.com''"
    by (simp add: cert_a_def)
  have ls: "certs_ls (env_answer ''y'') = Inr [cert_b, cert_a, cert_c]"
    by (simp add: env_answer_def env0_def)
  have stdin: "stdin_data (env_answer ''y'') = Some ''y''"
    by (simp add: env_answer_def env0_def)
  have args: "drop 1 (positional (argv_custom [''replace'', ''uid_a''])) = [''uid_a'']"
    by (simp add: argv_custom_def mri_plain_def)
  have sub: "Some ''replace'' = Some ''renew'' \<or> Some ''replace'' = Some ''replace''
              \<or> Some ''replace'' = Some ''rm'' \<or> Some ''replace'' = Some ''remove''"
    by simp
  have ready: "Some ''replace'' = Some ''replace'' \<longrightarrow>
                  truthy (crt (argv_custom [''replace'', ''uid_a'']))
                  \<and> truthy (key (argv_custom [''replace'', ''uid_a'']))
                  \<and> (\<forall>file. \<exists>text. readFileSync (env_answer ''y'') file = Inr text)"
    by (simp add: argv_custom_def truthy_def env_answer_def env0_def)
  from found name mutation_targets_cn [OF args ls found stdin yes sub ready, of sh0]
  show ?thesis by blast
qed

subsection \<open>Partial certificate options\<close>

text \<open>
  Claim C7, as stated: whenever exactly one of \<^verbatim>\<open>--crt\<close> and \<^verbatim>\<open>--key\<close> is given,
  \<^verbatim>\<open>create\<close> and \<^verbatim>\<open>replace\<close> fail with exit code 1, read no file and call no API.
  \<^verbatim>\<open>create\<close> tests the options for truthiness, so a lone \<^verbatim>\<open>--crt\<close> with an empty
  value is no option at all: the standard certificate is requested.
\<close>

theorem partial_flags_counterexample:
  "crt argv_crt_empty \<noteq> None \<and> key argv_crt_empty = None
   \<and> filter is_api_call (fst (run env0 argv_crt_empty (Some ''create'') sh0)) =
       [Api_create ''x.com'']
   \<and> exit_requests (fst (run env0 argv_crt_empty (Some ''create'') sh0)) = []"
  by (simp add: argv_crt_empty_def mri_plain_def env0_def run_def run_create_def truthy_def
      io_defs obs_defs Let_def)

text \<open>
  Claim C7, amended. \<^verbatim>\<open>replace\<close> fails so whenever exactly one of the two options is
  given. \<^verbatim>\<open>create\<close> fails so whenever exactly one of them is given and one of
  \<^verbatim>\<open>--crt\<close>, \<^verbatim>\<open>--key\<close>, \<^verbatim>\<open>--ca\<close> has a non-empty value or the number of positional
  arguments is not one.
\<close>

theorem partial_flags_rejected:
  assumes "(sub = Some ''replace'' \<and> (crt av = None) \<noteq> (key av = None))
           \<or> (sub = Some ''create'' \<and> (crt av = None) \<noteq> (key av = None)
               \<and> (truthy (crt av) \<or> truthy (key av) \<or> truthy (ca av)
                    \<or> length (drop 1 (positional av)) \<noteq> 1))"
  shows "exit_requests (fst (run env av sub s)) = [1]
         \<and> filter is_file_read (fst (run env av sub s)) = []
         \<and> filter is_api_call (fst (run env av sub s)) = []"
proof -
  have none: "\<not> truthy None" by (simp add: truthy_def)
  consider (replace) "sub = Some ''replace''" "(crt av = None) \<noteq> (key av = None)"
    | (create) "sub = Some ''create''" "(crt av = None) \<noteq> (key av = None)"
        "truthy (crt av) \<or> truthy (key av) \<or> truthy (ca av)
           \<or> length (drop 1 (positional av)) \<noteq> 1"
    using assms by fastforce
  then show ?thesis
  proof cases
    case replace
    then show ?thesis
      using none by (auto simp: run_def run_replace_def io_defs obs_defs)
  next
    case create
    then show ?thesis
      using none by (auto simp: run_def run_create_def io_defs obs_defs)
  qed
qed

theorem partial_flags_rejected_witness:
  "(crt (argv_crt_only [''replace'', ''a.com'']) = None)
     \<noteq> (key (argv_crt_only [''replace'', ''a.com'']) = None)
   \<and> exit_requests (fst (run env0 (argv_crt_only [''replace'', ''a.com'']) (Some ''replace'') sh0)) = [1]
   \<and> filter is_file_read (fst (run env0 (argv_crt_only [''replace'', ''a.com'']) (Some ''replace'') sh0)) = []
   \<and> filter is_api_call (fst (run env0 (argv_crt_only [''replace'', ''a.com'']) (Some ''replace'') sh0)) = []
   \<and> (crt (argv_crt_only [''create'', ''a.com'']) = None)
     \<noteq> (key (argv_crt_only [''create'', ''a.com'']) = None)
   \<and> truthy (crt (argv_crt_only [''create'', ''a.com'']))
   \<and> exit_requests (fst (run env0 (argv_crt_only [''create'', ''a.com'']) (Some ''create'') sh0)) = [1]
   \<and> filter is_file_read (fst (run env0 (argv_crt_only [''create'', ''a.com'']) (Some ''create'') sh0)) = []
   \<and> filter is_api_call (fst (run env0 (argv_crt_only [''create'', ''a.com'']) (Some ''create'') sh0)) = []"
proof -
  have one: "(crt (argv_crt_only xs) = None) \<noteq> (key (argv_crt_only xs) = None)" for xs
    by (simp add: argv_crt_only_def mri_plain_def)
  have tr: "truthy (crt (argv_crt_only xs))" for xs
    by (simp add: argv_crt_only_def truthy_def)
  have h1: "(Some ''replace'' = Some ''replace''
              \<and> (crt (argv_crt_only [''replace'', ''a.com'']) = None)
                  \<noteq> (key (argv_crt_only [''replace'', ''a.com'']) = None))
           \<or> (Some ''replace'' = Some ''create''
               \<and> (crt (argv_crt_only [''replace'', ''a.com'']) = None)
                   \<noteq> (key (argv_crt_only [''replace'', ''a.com'']) = None)
               \<and> (truthy (crt (argv_crt_only [''replace'', ''a.com'']))
                    \<or> truthy (key (argv_crt_only [''replace'', ''a.com'']))
                    \<or> truthy (ca (argv_crt_only [''replace'', ''a.com'']))
                    \<or> length (drop 1 (positional (argv_crt_only [''replace'', ''a.com'']))) \<noteq> 1))"
    by (simp add: argv_crt_only_def mri_plain_def)
  have h2: "(Some ''create'' = Some ''replace''
              \<and> (crt (argv_crt_only [''create'', ''a.com'']) = None)
                  \<noteq> (key (argv_crt_only [''create'', ''a.com'']) = None))
           \<or> (Some ''create'' = Some ''create''
               \<and> (crt (argv_crt_only [''create'', ''a.com'']) = None)
                   \<noteq> (key (argv_crt_only [''create'', ''a.com'']) = None)
               \<and> (truthy (crt (argv_crt_only [''create'', ''a.com'']))
                    \<or> truthy (key (argv_crt_only [''create'', ''a.com'']))
                    \<or> truthy (ca (argv_crt_only [''create'', ''a.com'']))
                    \<or> length (drop 1 (positional (argv_crt_only [''create'', ''a.com'']))) \<noteq> 1))"
    by (simp add: argv_crt_only_def mri_plain_def truthy_def)
  from one [of "[''replace'', ''a.com'']"] one [of "[''create'', ''a.com'']"]
    tr [of "[''create'', ''a.com'']"]
    partial_flags_rejected [OF h1, of env0 sh0] partial_flags_rejected [OF h2, of env0 sh0]
  show ?thesis by blast
qed

subsection \<open>Closing the client\<close>

lemma exit_requests_append: "exit_requests (xs @ ys) = exit_requests xs @ exit_requests ys"
  by (simp add: exit_requests_def map_filter_def)

lemma exit_requests_Nil: "exit_requests [] = []"
  by (simp add: exit_requests_def)

lemma exit_requests_Cons:
  "exit_requests (e # tr) =
     (case exit_request e of None \<Rightarrow> exit_requests tr | Some code \<Rightarrow> code # exit_requests tr)"
  by (simp add: exit_requests_def split: option.splits)

lemma branch_ok_bind:
  assumes "branch_ok m" and "\<And>x. branch_ok (f x)"
  shows "branch_ok (bind_io m f)"
proof (cases m)
  case (Pair tr c)
  show ?thesis
  proof (cases c)
    case (Normal x)
    obtain tr' c' where f: "f x = (tr', c')" by (cases "f x")
    from assms(2) [of x] f have ok': "branch_ok (tr', c')" by simp
    from assms(1) Pair Normal have ok: "Api_close \<notin> set tr" "exit_requests tr = []"
      by (simp_all add: branch_ok_def)
    from ok ok' show ?thesis
      unfolding Pair Normal
      by (auto simp: bind_io_def f branch_ok_def exit_requests_append)
  next
    case Return
    with assms(1) Pair show ?thesis by (simp add: bind_io_def branch_ok_def)
  next
    case (Throw e)
    with assms(1) Pair show ?thesis by (simp add: bind_io_def branch_ok_def)
  next
    case Never
    with assms(1) Pair show ?thesis by (simp add: bind_io_def branch_ok_def)
  qed
qed

lemma branch_ok_then:
  assumes "branch_ok m" and "branch_ok n"
  shows "branch_ok (then_io m n)"
  unfolding then_io_def using assms by (intro branch_ok_bind)

lemma branch_ok_unit: "branch_ok (unit_io x)"
  by (simp add: branch_ok_def unit_io_def exit_requests_def)

lemma branch_ok_emit:
  assumes "e \<noteq> Api_close" and "exit_request e = None"
  shows "branch_ok (emit e)"
  using assms by (simp add: branch_ok_def emit_def exit_requests_def)

lemma branch_ok_call:
  assumes "e \<noteq> Api_close" and "exit_request e = None"
  shows "branch_ok (call e r)"
  using assms by (simp add: branch_ok_def call_def exit_requests_def split: sum.splits)

lemma branch_ok_return_exit: "branch_ok (return_exit env code)"
  by (simp add: branch_ok_def return_exit_def)

lemma branch_ok_never: "branch_ok ([], Never)"
  by (simp add: branch_ok_def)

lemma branch_ok_prints:
  "branch_ok (console_error m)" "branch_ok (console_log x)" "branch_ok (stdout_write x)"
  by (simp_all add: console_error_def console_log_def stdout_write_def branch_ok_emit)

lemma branch_ok_block:
  assumes "\<And>m. m \<in> set stmts \<Longrightarrow> branch_ok m"
  shows "branch_ok (block stmts)"
  using assms
proof (induction stmts)
  case Nil
  then show ?case by (simp add: block_def branch_ok_unit)
next
  case (Cons m stmts)
  then have "branch_ok m" "branch_ok (block stmts)" by simp_all
  then show ?case
    using branch_ok_then [of m "block stmts"] by (simp add: block_def)
qed

lemmas branch_ok_intros = branch_ok_bind branch_ok_then branch_ok_unit branch_ok_emit
  branch_ok_call branch_ok_return_exit branch_ok_never branch_ok_prints

lemma branch_ok_readX509File: "branch_ok (readX509File env file)"
  by (simp add: readX509File_def branch_ok_call)

lemma branch_ok_getCertIdCn: "branch_ok (getCertIdCn env idOrCn s)"
  unfolding getCertIdCn_def
  by (intro branch_ok_intros) (auto intro!: branch_ok_intros split: list.splits)

lemma branch_ok_readConfirmation: "branch_ok (readConfirmation env c msg)"
  unfolding readConfirmation_def
  by (intro branch_ok_then branch_ok_block)
     (auto intro!: branch_ok_intros split: option.splits)

lemmas branch_ok_helpers = branch_ok_readX509File branch_ok_getCertIdCn
  branch_ok_readConfirmation

lemma branch_ok_run_ls: "branch_ok (run_ls env args s)"
  unfolding run_ls_def Let_def
  by (auto intro!: branch_ok_intros branch_ok_block)

lemma branch_ok_run_create: "branch_ok (run_create env av args)"
  unfolding run_create_def Let_def
  by (auto intro!: branch_ok_intros branch_ok_helpers split: option.splits)

lemma branch_ok_run_renew: "branch_ok (run_renew env args s)"
  unfolding run_renew_def
  by (auto intro!: branch_ok_intros branch_ok_helpers split: option.splits)

lemma branch_ok_run_replace: "branch_ok (run_replace env av args s)"
  unfolding run_replace_def
  by (auto intro!: branch_ok_intros branch_ok_helpers split: option.splits)

lemma branch_ok_run_rm: "branch_ok (run_rm env args s)"
  unfolding run_rm_def
  by (auto intro!: branch_ok_intros branch_ok_helpers split: option.splits)

lemma run_recognized:
  assumes "recognized sub"
  shows "\<exists>m. branch_ok m \<and>
           run env av sub s = then_io (emit New_certs) (then_io m (call Api_close (certs_close env)))"
proof -
  consider (ls) "sub = Some ''ls'' \<or> sub = Some ''list''" | (create) "sub = Some ''create''"
    | (renew) "sub = Some ''renew''" | (replace) "sub = Some ''replace''"
    | (rm) "sub = Some ''rm'' \<or> sub = Some ''remove''"
    using assms unfolding recognized_def by argo
  then show ?thesis
  proof cases
    case ls
    then have "run env av sub s =
        then_io (emit New_certs)
          (then_io (run_ls env (drop 1 (positional av)) s) (call Api_close (certs_close env)))"
      by (auto simp: run_def Let_def)
    with branch_ok_run_ls show ?thesis by blast
  next
    case create
    then have "run env av sub s =
        then_io (emit New_certs)
          (then_io (run_create env av (drop 1 (positional av))) (call Api_close (certs_close env)))"
      by (simp add: run_def Let_def)
    with branch_ok_run_create show ?thesis by blast
  next
    case renew
    then have "run env av sub s =
        then_io (emit New_certs)
          (then_io (run_renew env (drop 1 (positional av)) s) (call Api_close (certs_close env)))"
      by (simp add: run_def Let_def)
    with branch_ok_run_renew show ?thesis by blast
  next
    case replace
    then have "run env av sub s =
        then_io (emit New_certs)
          (then_io (run_replace env av (drop 1 (positional av)) s)
             (call Api_close (certs_close env)))"
      by (simp add: run_def Let_def)
    with branch_ok_run_replace show ?thesis by blast
  next
    case rm
    then have "run env av sub s =
        then_io (emit New_certs)
          (then_io (run_rm env (drop 1 (positional av)) s) (call Api_close (certs_close env)))"
      by (auto simp: run_def Let_def)
    with branch_ok_run_rm show ?thesis by blast
  qed
qed

lemma run_unrecognized:
  assumes "\<not> recognized sub"
  shows "run env av sub s =
           ([New_certs, Console_error Invalid_subcommand, Help, Exit 1]
              @ (if exit_gives env = Halts then [] else [Api_close]),
            if exit_gives env = Halts then Never
            else (case certs_close env of Inl e \<Rightarrow> Throw e | Inr _ \<Rightarrow> Normal ()))"
  using assms
  by (simp add: recognized_def run_def run_invalid_def Let_def io_defs split: sum.splits)

lemma wrap_branch:
  "then_io (emit New_certs) (then_io (tr, c) (call Api_close r)) =
     (case c of
        Normal x \<Rightarrow>
          (New_certs # tr @ [Api_close], case r of Inl e \<Rightarrow> Throw e | Inr y \<Rightarrow> Normal y)
      | Return \<Rightarrow> (New_certs # tr, Return)
      | Throw e \<Rightarrow> (New_certs # tr, Throw e)
      | Never \<Rightarrow> (New_certs # tr, Never))"
  by (cases c) (simp_all add: io_defs)

lemma close_after_branch:
  assumes "branch_ok m"
  shows "(snd (then_io (emit New_certs) (then_io m (call Api_close r))) = Normal () \<longrightarrow>
            last (fst (then_io (emit New_certs) (then_io m (call Api_close r)))) = Api_close
            \<and> exit_requests (fst (then_io (emit New_certs) (then_io m (call Api_close r)))) = [])
         \<and> (snd (then_io (emit New_certs) (then_io m (call Api_close r))) = Return \<longrightarrow>
               Api_close \<notin> set (fst (then_io (emit New_certs) (then_io m (call Api_close r))))
               \<and> (\<exists>code. last (fst (then_io (emit New_certs) (then_io m (call Api_close r))))
                     = Exit code))"
proof (cases m)
  case (Pair tr c)
  show ?thesis
  proof (cases c)
    case (Normal x)
    from assms Pair Normal have "exit_requests tr = []"
      by (simp add: branch_ok_def)
    then have "exit_requests (New_certs # tr @ [Api_close]) = []"
      by (simp add: exit_requests_Cons exit_requests_append exit_requests_Nil)
    then show ?thesis
      unfolding Pair Normal wrap_branch by (simp split: sum.splits)
  next
    case Return
    from assms Pair Return have "Api_close \<notin> set tr" "tr \<noteq> []" "\<exists>code. last tr = Exit code"
      by (simp_all add: branch_ok_def)
    then show ?thesis
      unfolding Pair Return wrap_branch by simp
  next
    case (Throw e)
    show ?thesis unfolding Pair Throw wrap_branch by simp
  next
    case Never
    show ?thesis unfolding Pair Never wrap_branch by simp
  qed
qed

text \<open>
  Claim C1, amended. A run of the dispatcher that completes without throwing does so in
  one of two ways. Either it reaches its last statement, and then \<^verbatim>\<open>close()\<close> is the
  last thing it did: these are the runs of a known subcommand that requested no exit
  (the successes), and the unknown subcommand, whose \<^verbatim>\<open>exit(1)\<close> is not returned. Or
  it leaves through \<^verbatim>\<open>return exit(code)\<close> (abort, failed validation, unresolved
  certificate, falsy answer to create), and then \<^verbatim>\<open>close()\<close> was never invoked.
\<close>

theorem close_on_completion:
  "(snd (run env av sub s) = Normal () \<longrightarrow> last (fst (run env av sub s)) = Api_close)
   \<and> (snd (run env av sub s) = Return \<longrightarrow>
         Api_close \<notin> set (fst (run env av sub s))
         \<and> (\<exists>code. last (fst (run env av sub s)) = Exit code))
   \<and> (recognized sub \<longrightarrow> snd (run env av sub s) = Normal () \<longrightarrow>
         exit_requests (fst (run env av sub s)) = [])
   \<and> (\<not> recognized sub \<longrightarrow>
         fst (run env av sub s) =
           [New_certs, Console_error Invalid_subcommand, Help, Exit 1]
           @ (if exit_gives env = Halts then [] else [Api_close]))"
proof (cases "recognized sub")
  case True
  then obtain m where m: "branch_ok m"
    "run env av sub s = then_io (emit New_certs) (then_io m (call Api_close (certs_close env)))"
    using run_recognized by blast
  from close_after_branch [OF m(1), of "certs_close env"] True show ?thesis
    unfolding m(2) by blast
next
  case False
  then show ?thesis
    by (simp add: run_unrecognized split: sum.splits)
qed

lemma renew_abort_run:
  "run ((env_answer ''n'')\<lparr>exit_gives := b\<rparr>) (mri_plain [''renew'', ''uid_a''])
     (Some ''renew'') sh0 =
   ([New_certs, Api_ls,
     Stdout_write (Confirm_msg (''The following certificate will be renewed'' @ [CHR 0x0A])),
     Stdout_write (Confirm_table cert_a), Stdout_write Are_you_sure, Stdin_pause,
     Console_error User_abort, Exit 0],
    if b = Returns_undefined then Return else Never)"
proof -
  have no: "toLowerCase (trim ''n'') \<noteq> ''y''"
    by code_simp
  have found: "find (\<lambda>cert. uid cert = ''uid_a'' \<or> cn cert = ''uid_a'')
                 [cert_b, cert_a, cert_c] = Some cert_a"
    by (simp add: cert_a_def cert_b_def cert_c_def)
  have args: "drop 1 (positional (mri_plain [''renew'', ''uid_a''])) = [''uid_a'']"
    by (simp add: mri_plain_def)
  have ls: "certs_ls ((env_answer ''n'')\<lparr>exit_gives := b\<rparr>) = Inr [cert_b, cert_a, cert_c]"
    by (simp add: env_answer_def env0_def)
  have stdin: "stdin_data ((env_answer ''n'')\<lparr>exit_gives := b\<rparr>) = Some ''n''"
    by (simp add: env_answer_def env0_def)
  show ?thesis
    using no by (simp add: run_renew_found [OF args ls found stdin])
qed

lemma env_answer_exit: "(env_answer d)\<lparr>exit_gives := Returns_undefined\<rparr> = env_answer d"
  by (simp add: env_answer_def env0_def)

text \<open>
  Claim C1, as stated: \<^verbatim>\<open>close()\<close> is invoked on every path that completes without
  throwing, the abort of a confirmation among them. \<^verbatim>\<open>renew uid_a\<close> answered
  \<^verbatim>\<open>n\<close> returns through \<^verbatim>\<open>return exit(0)\<close>: the client is not closed, whatever
  \<^verbatim>\<open>exit\<close> gives back.
\<close>

theorem close_on_abort_counterexample:
  "snd (run (env_answer ''n'') (mri_plain [''renew'', ''uid_a'']) (Some ''renew'') sh0) = Return
   \<and> Api_close \<notin> set (fst (run (env_answer ''n'') (mri_plain [''renew'', ''uid_a''])
                               (Some ''renew'') sh0))
   \<and> Api_close \<notin> set (fst (run ((env_answer ''n'')\<lparr>exit_gives := Returns_pending\<rparr>)
                               (mri_plain [''renew'', ''uid_a'']) (Some ''renew'') sh0))
   \<and> Api_close \<notin> set (fst (run ((env_answer ''n'')\<lparr>exit_gives := Halts\<rparr>)
                               (mri_plain [''renew'', ''uid_a'']) (Some ''renew'') sh0))"
  using renew_abort_run [of Returns_undefined] renew_abort_run [of Returns_pending]
    renew_abort_run [of Halts]
  unfolding env_answer_exit by simp

theorem close_on_completion_witness:
  "snd (run env0 (mri_plain [''create'', ''x.com'']) (Some ''create'') sh0) = Normal ()
   \<and> recognized (Some ''create'')
   \<and> last (fst (run env0 (mri_plain [''create'', ''x.com'']) (Some ''create'') sh0)) = Api_close
   \<and> exit_requests (fst (run env0 (mri_plain [''create'', ''x.com'']) (Some ''create'') sh0)) = []
   \<and> snd (run (env_answer ''n'') (mri_plain [''renew'', ''uid_a'']) (Some ''renew'') sh0) = Return
   \<and> Api_close \<notin> set (fst (run (env_answer ''n'') (mri_plain [''renew'', ''uid_a''])
                               (Some ''renew'') sh0))
   \<and> (\<exists>code. last (fst (run (env_answer ''n'') (mri_plain [''renew'', ''uid_a''])
                           (Some ''renew'') sh0)) = Exit code)
   \<and> \<not> recognized (Some ''frobnicate'')
   \<and> fst (run env0 (mri_plain [''frobnicate'']) (Some ''frobnicate'') sh0) =
       [New_certs, Console_error Invalid_subcommand, Help, Exit 1]
       @ (if exit_gives env0 = Halts then [] else [Api_close])"
proof -
  have a: "snd (run env0 (mri_plain [''create'', ''x.com'']) (Some ''create'') sh0) = Normal ()"
    by (simp add: run_def run_create_def env0_def mri_plain_def truthy_def io_defs Let_def)
  have ra: "recognized (Some ''create'')"
    by (simp add: recognized_def)
  have b: "snd (run (env_answer ''n'') (mri_plain [''renew'', ''uid_a'']) (Some ''renew'') sh0)
             = Return"
    using renew_abort_run [of Returns_undefined] unfolding env_answer_exit by simp
  have rc: "\<not> recognized (Some ''frobnicate'')"
    by (simp add: recognized_def)
  from a ra b rc
    close_on_completion [of env0 "mri_plain [''create'', ''x.com'']" "Some ''create''" sh0]
    close_on_completion [of "env_answer ''n''" "mri_plain [''renew'', ''uid_a'']"
      "Some ''renew''" sh0]
    close_on_completion [of env0 "mri_plain [''frobnicate'']" "Some ''frobnicate''" sh0]
  show ?thesis by blast
qed

subsection \<open>Missing and unknown subcommands\<close>

lemma falsy_unrecognized:
  assumes "\<not> truthy sub"
  shows "\<not> recognized sub"
  using assms by (auto simp: truthy_def recognized_def)

lemma main_unrecognized:
  assumes "\<not> recognized (arg0 (positional (parse_argv env c)))"
  shows "certs_command env c =
     (case (if help_opt (parse_argv env c) \<or> \<not> truthy (arg0 (positional (parse_argv env c)))
            then ([Help, Exit 0], if exit_gives env = Returns_undefined then Normal () else Never)
            else ([], Normal ())) of
        (tr, Normal _) \<Rightarrow>
          (case find (\<lambda>item. provider item = ''sh'') (credentials c) of
             None \<Rightarrow> (tr @ [Handle_error Type_error, Process_exit 1], Never)
           | Some item \<Rightarrow>
               if exit_gives env = Halts
               then (tr @ [New_certs, Console_error Invalid_subcommand, Help, Exit 1], Never)
               else (case certs_close env of
                       Inl e \<Rightarrow>
                         (tr @ [New_certs, Console_error Invalid_subcommand, Help, Exit 1,
                                Api_close, Handle_error e, Exit 1], Normal ())
                     | Inr _ \<Rightarrow>
                         (tr @ [New_certs, Console_error Invalid_subcommand, Help, Exit 1,
                                Api_close], Normal ())))
      | (tr, c') \<Rightarrow> (tr, c'))"
  using assms
  by (simp add: certs_command_def main_def Let_def run_unrecognized try_catch_def returned_def
      io_defs split: option.splits sum.splits)

text \<open>
  Claim C2, amended. Without \<^verbatim>\<open>--help\<close>, an unknown subcommand ends the command with
  exit code 1: every request to exit that it makes is a request for 1. A missing
  subcommand makes \<^verbatim>\<open>main\<close> print the help and request exit code 0 before anything
  else, and 0 is the exit code of the command when the credentials of the provider are
  there.
\<close>

theorem subcommand_exit_codes:
  assumes nohelp: "\<not> help_opt (parse_argv env c1)"
    and given: "truthy (arg0 (positional (parse_argv env c1)))"
    and unknown: "\<not> recognized (arg0 (positional (parse_argv env c1)))"
    and missing: "\<not> truthy (arg0 (positional (parse_argv env c2)))"
    and login: "find (\<lambda>item. provider item = ''sh'') (credentials c2) \<noteq> None"
  shows "set (exit_requests (fst (certs_command env c1))) = {1}
         \<and> exit_status (fst (certs_command env c1)) = 1
         \<and> take 2 (fst (certs_command env c2)) = [Help, Exit 0]
         \<and> exit_status (fst (certs_command env c2)) = 0"
proof -
  have one: "set (exit_requests (fst (certs_command env c1))) = {1}
             \<and> exit_status (fst (certs_command env c1)) = 1"
    using nohelp given
    by (simp add: main_unrecognized [OF unknown] obs_defs split: option.splits sum.splits)
  have two: "take 2 (fst (certs_command env c2)) = [Help, Exit 0]
             \<and> exit_status (fst (certs_command env c2)) = 0"
    using missing login
    by (auto simp add: main_unrecognized [OF falsy_unrecognized [OF missing]] obs_defs
        split: option.splits sum.splits)
  from one two show ?thesis by blast
qed

text \<open>
  Claim C2, as stated: a missing subcommand ends the command with exit code 1, like an
  unknown one. \<^verbatim>\<open>now certs\<close> takes the guard \<^verbatim>\<open>argv.help || !subcommand\<close> of
  \<^verbatim>\<open>main\<close>, whose \<^verbatim>\<open>exit(0)\<close> is the first request, whatever \<^verbatim>\<open>exit\<close> gives back.
\<close>

theorem missing_subcommand_counterexample:
  "exit_status (fst (certs_command env0 (ctx0 [''certs'']))) = 0
   \<and> exit_status (fst (certs_command (env0\<lparr>exit_gives := Returns_pending\<rparr>) (ctx0 [''certs'']))) = 0
   \<and> exit_status (fst (certs_command (env0\<lparr>exit_gives := Halts\<rparr>) (ctx0 [''certs'']))) = 0
   \<and> fst (certs_command env0 (ctx0 [''certs''])) =
       [Help, Exit 0, New_certs, Console_error Invalid_subcommand, Help, Exit 1, Api_close]"
proof -
  have p: "parse_argv (env0\<lparr>exit_gives := b\<rparr>) (ctx0 [''certs'']) = mri_plain []" for b
    by (simp add: parse_argv_def env0_def ctx0_def mri_plain_def)
  have u: "\<not> recognized (arg0 (positional (parse_argv (env0\<lparr>exit_gives := b\<rparr>) (ctx0 [''certs'']))))" for b
    unfolding p by (simp add: mri_plain_def arg0_def recognized_def)
  have e: "env0\<lparr>exit_gives := Returns_undefined\<rparr> = env0"
    by (simp add: env0_def)
  have "exit_status (fst (certs_command (env0\<lparr>exit_gives := b\<rparr>) (ctx0 [''certs'']))) = 0
        \<and> (b = Returns_undefined \<longrightarrow>
             fst (certs_command (env0\<lparr>exit_gives := b\<rparr>) (ctx0 [''certs''])) =
             [Help, Exit 0, New_certs, Console_error Invalid_subcommand, Help, Exit 1, Api_close])" for b
    unfolding main_unrecognized [OF u] p
    by (simp add: mri_plain_def arg0_def truthy_def env0_def ctx0_def obs_defs)
  from this [of Returns_undefined] this [of Returns_pending] this [of Halts] show ?thesis
    unfolding e by blast
qed

theorem subcommand_exit_codes_witness:
  "\<not> help_opt (parse_argv env0 (ctx0 [''certs'', ''frobnicate'']))
   \<and> truthy (arg0 (positional (parse_argv env0 (ctx0 [''certs'', ''frobnicate'']))))
   \<and> \<not> recognized (arg0 (positional (parse_argv env0 (ctx0 [''certs'', ''frobnicate'']))))
   \<and> \<not> truthy (arg0 (positional (parse_argv env0 (ctx0 [''certs'']))))
   \<and> find (\<lambda>item. provider item = ''sh'') (credentials (ctx0 [''certs''])) \<noteq> None
   \<and> set (exit_requests (fst (certs_command env0 (ctx0 [''certs'', ''frobnicate''])))) = {1}
   \<and> exit_status (fst (certs_command env0 (ctx0 [''certs'', ''frobnicate'']))) = 1
   \<and> take 2 (fst (certs_command env0 (ctx0 [''certs'']))) = [Help, Exit 0]
   \<and> exit_status (fst (certs_command env0 (ctx0 [''certs'']))) = 0"
proof -
  have p1: "parse_argv env0 (ctx0 [''certs'', ''frobnicate'']) = mri_plain [''frobnicate'']"
    by (simp add: parse_argv_def env0_def ctx0_def mri_plain_def)
  have p2: "parse_argv env0 (ctx0 [''certs'']) = mri_plain []"
    by (simp add: parse_argv_def env0_def ctx0_def mri_plain_def)
  have nohelp: "\<not> help_opt (parse_argv env0 (ctx0 [''certs'', ''frobnicate'']))"
    unfolding p1 by (simp add: mri_plain_def)
  have given: "truthy (arg0 (positional (parse_argv env0 (ctx0 [''certs'', ''frobnicate'']))))"
    unfolding p1 by (simp add: mri_plain_def arg0_def truthy_def)
  have unknown: "\<not> recognized (arg0 (positional (parse_argv env0 (ctx0 [''certs'', ''frobnicate'']))))"
    unfolding p1 by (simp add: mri_plain_def arg0_def recognized_def)
  have missing: "\<not> truthy (arg0 (positional (parse_argv env0 (ctx0 [''certs'']))))"
    unfolding p2 by (simp add: mri_plain_def arg0_def truthy_def)
  have login: "find (\<lambda>item. provider item = ''sh'') (credentials (ctx0 [''certs''])) \<noteq> None"
    by (simp add: ctx0_def)
  from nohelp given unknown missing login
    subcommand_exit_codes [OF nohelp given unknown missing login]
  show ?thesis by blast
qed

subsection \<open>The table of ls\<close>

lemma mset_insert_sorted: "mset (insert_sorted cmp x xs) = add_mset x (mset xs)"
  by (induction xs) auto

lemma mset_array_sort: "mset (array_sort cmp xs) = mset xs"
  by (induction xs) (auto simp: array_sort_def mset_insert_sorted)

lemma set_insert_sorted: "set (insert_sorted cmp x xs) = insert x (set xs)"
  by (induction xs) auto

lemma sorted_insert_sorted:
  assumes total: "\<And>a b. cmp a b \<le> 0 \<or> cmp b a \<le> 0"
    and trans: "\<And>a b c. cmp a b \<le> 0 \<Longrightarrow> cmp b c \<le> 0 \<Longrightarrow> cmp a c \<le> 0"
    and sorted: "sorted_wrt (\<lambda>a b. cmp a b \<le> 0) xs"
  shows "sorted_wrt (\<lambda>a b. cmp a b \<le> 0) (insert_sorted cmp x xs)"
  using sorted
proof (induction xs)
  case Nil
  then show ?case by simp
next
  case (Cons y ys)
  show ?case
  proof (cases "cmp x y \<le> 0")
    case True
    with Cons.prems trans show ?thesis by auto
  next
    case False
    with total have "cmp y x \<le> 0" by blast
    with False Cons show ?thesis by (auto simp: set_insert_sorted)
  qed
qed

lemma sorted_array_sort:
  assumes total: "\<And>a b. cmp a b \<le> 0 \<or> cmp b a \<le> 0"
    and trans: "\<And>a b c. cmp a b \<le> 0 \<Longrightarrow> cmp b c \<le> 0 \<Longrightarrow> cmp a c \<le> 0"
  shows "sorted_wrt (\<lambda>a b. cmp a b \<le> 0) (array_sort cmp xs)"
proof (induction xs)
  case Nil
  then show ?case by (simp add: array_sort_def)
next
  case (Cons x xs)
  have "array_sort cmp (x # xs) = insert_sorted cmp x (array_sort cmp xs)"
    by (simp add: array_sort_def)
  with Cons sorted_insert_sorted [of cmp "array_sort cmp xs" x] total trans
  show ?case by simp
qed

lemma block_rows:
  "block (map (\<lambda>cert. stdout_write (Table_row w cert)) xs) =
     (map (\<lambda>cert. Stdout_write (Table_row w cert)) xs, Normal ())"
  by (induction xs) (simp_all add: io_defs)

lemma printed_rows_map:
  "printed_rows (map (\<lambda>cert. Stdout_write (Table_row w cert)) xs) = xs"
  by (induction xs) (simp_all add: printed_rows_def)

lemma printed_rows_append:
  "printed_rows (xs @ ys) = printed_rows xs @ printed_rows ys"
  by (simp add: printed_rows_def map_filter_def)

lemma printed_rows_Cons:
  "printed_rows (e # tr) =
     (case table_row e of None \<Rightarrow> printed_rows tr | Some c \<Rightarrow> c # printed_rows tr)"
  by (simp add: printed_rows_def split: option.splits)

lemma printed_rows_Nil: "printed_rows [] = []"
  by (simp add: printed_rows_def)

lemma printed_rows_ls:
  assumes "drop 1 (positional av) = []"
    and "certs_ls env = Inr list"
    and "sub = Some ''ls'' \<or> sub = Some ''list''"
  shows "printed_rows (fst (run env av sub s)) =
           array_sort (\<lambda>a b. localeCompare env (cn a) (cn b)) list"
proof (cases list)
  case Nil
  with assms show ?thesis
    by (auto simp: run_def run_ls_def io_defs printed_rows_Cons printed_rows_Nil
        array_sort_def split: sum.splits)
next
  case (Cons c cs)
  from assms Cons show ?thesis
    by (auto simp: run_def run_ls_def Let_def block_rows bind_io_def then_io_def emit_def
        call_def console_log_def printed_rows_append printed_rows_Cons printed_rows_Nil
        printed_rows_map split: sum.splits)
qed

text \<open>
  Claim C3, amended. Whatever list \<^verbatim>\<open>ls\<close> answers, the rows of the table are the
  certificates of the list, each once, in ascending order of \<open>cn\<close> under
  \<^verbatim>\<open>localeCompare\<close>, the comparison the dispatcher sorts with: each row compares
  below or equal to every later one. \<^verbatim>\<open>localeCompare\<close> is the collation of the
  runtime, taken as a total preorder of strings; it is not the comparison by character
  codes.
\<close>

theorem ls_rows_sorted:
  assumes total: "\<forall>a b. localeCompare env a b \<le> 0 \<or> localeCompare env b a \<le> 0"
    and trans: "\<forall>a b c. localeCompare env a b \<le> 0 \<longrightarrow> localeCompare env b c \<le> 0
                  \<longrightarrow> localeCompare env a c \<le> 0"
    and args: "drop 1 (positional av) = []"
    and ls: "certs_ls env = Inr list"
    and sub: "sub = Some ''ls'' \<or> sub = Some ''list''"
  shows "sorted_wrt (\<lambda>a b. localeCompare env (cn a) (cn b) \<le> 0)
           (printed_rows (fst (run env av sub s)))
         \<and> mset (printed_rows (fst (run env av sub s))) = mset list"
proof -
  let ?cmp = "\<lambda>a b. localeCompare env (cn a) (cn b)"
  have t: "?cmp a b \<le> 0 \<or> ?cmp b a \<le> 0" for a b :: cert
    using total by blast
  have tr: "?cmp a b \<le> 0 \<Longrightarrow> ?cmp b c \<le> 0 \<Longrightarrow> ?cmp a c \<le> 0" for a b c :: cert
    using trans by blast
  have "sorted_wrt (\<lambda>a b. ?cmp a b \<le> 0) (array_sort ?cmp list)"
    by (rule sorted_array_sort [of ?cmp, OF t tr])
  then show ?thesis
    by (simp add: printed_rows_ls [OF args ls sub] mset_array_sort)
qed

lemma compare_codes_total: "compare_codes a b \<le> 0 \<or> compare_codes b a \<le> 0"
  by (induction a b rule: compare_codes.induct) auto

lemma compare_codes_trans:
  "compare_codes a b \<le> 0 \<Longrightarrow> compare_codes b c \<le> 0 \<Longrightarrow> compare_codes a c \<le> 0"
proof (induction a arbitrary: b c)
  case Nil
  then show ?case by (cases c) auto
next
  case (Cons x xs)
  then show ?case
    by (cases b; cases c) (auto split: if_splits)
qed

lemma compare_folded_total: "compare_folded a b \<le> 0 \<or> compare_folded b a \<le> 0"
  unfolding compare_folded_def by (rule compare_codes_total)

lemma compare_folded_trans:
  "compare_folded a b \<le> 0 \<Longrightarrow> compare_folded b c \<le> 0 \<Longrightarrow> compare_folded a c \<le> 0"
  unfolding compare_folded_def by (rule compare_codes_trans)

lemma collated_rows:
  "printed_rows (fst (run env_collated (mri_plain [''ls'']) (Some ''ls'') sh0)) =
     [cert_a, cert_upper_b, cert_c]"
proof -
  have cmp: "localeCompare env_collated = compare_folded"
    by (simp add: env_collated_def env0_def)
  have args: "drop 1 (positional (mri_plain [''ls''])) = []"
    by (simp add: mri_plain_def)
  have ls: "certs_ls env_collated = Inr [cert_upper_b, cert_a, cert_c]"
    by (simp add: env_collated_def env0_def)
  have sub: "Some ''ls'' = Some ''ls'' \<or> Some ''ls'' = Some ''list''"
    by simp
  have sorted: "array_sort (\<lambda>a b. compare_folded (cn a) (cn b)) [cert_upper_b, cert_a, cert_c] =
                [cert_a, cert_upper_b, cert_c]"
    by code_simp
  show ?thesis
    unfolding printed_rows_ls [OF args ls sub] cmp by (rule sorted)
qed

text \<open>
  Claim C3, as stated: the rows are in ascending lexicographic order of \<open>cn\<close>. The
  dispatcher sorts with \<^verbatim>\<open>localeCompare\<close>, which puts \<^verbatim>\<open>a.com\<close> before
  \<^verbatim>\<open>B.com\<close>: for the list \<^verbatim>\<open>B.com, a.com, c.com\<close> the first row printed is above
  the second in the lexicographic order of character codes.
\<close>

theorem ls_code_order_counterexample:
  "certs_ls env_collated = Inr [cert_upper_b, cert_a, cert_c]
   \<and> printed_rows (fst (run env_collated (mri_plain [''ls'']) (Some ''ls'') sh0)) =
       [cert_a, cert_upper_b, cert_c]
   \<and> cn cert_a = ''a.com'' \<and> cn cert_upper_b = ''B.com''
   \<and> compare_codes ''a.com'' ''B.com'' = 1
   \<and> \<not> sorted_wrt (\<lambda>a b. compare_codes (cn a) (cn b) \<le> 0)
         (printed_rows (fst (run env_collated (mri_plain [''ls'']) (Some ''ls'') sh0)))"
proof -
  have ls: "certs_ls env_collated = Inr [cert_upper_b, cert_a, cert_c]"
    by (simp add: env_collated_def env0_def)
  have names: "cn cert_a = ''a.com''" "cn cert_upper_b = ''B.com''"
    by (simp_all add: cert_a_def cert_upper_b_def)
  have above: "compare_codes ''a.com'' ''B.com'' = 1"
    by code_simp
  have unsorted: "\<not> sorted_wrt (\<lambda>a b. compare_codes (cn a) (cn b) \<le> 0)
                     [cert_a, cert_upper_b, cert_c]"
    using above by (simp add: names)
  from ls names above unsorted show ?thesis
    unfolding collated_rows by blast
qed

theorem ls_rows_sorted_witness:
  "certs_ls env_collated = Inr [cert_upper_b, cert_a, cert_c]
   \<and> sorted_wrt (\<lambda>a b. localeCompare env_collated (cn a) (cn b) \<le> 0)
        (printed_rows (fst (run env_collated (mri_plain [''ls'']) (Some ''ls'') sh0)))
   \<and> mset (printed_rows (fst (run env_collated (mri_plain [''ls'']) (Some ''ls'') sh0))) =
       mset [cert_upper_b, cert_a, cert_c]
   \<and> printed_rows (fst (run env_collated (mri_plain [''ls'']) (Some ''ls'') sh0)) =
       [cert_a, cert_upper_b, cert_c]"
proof -
  have cmp: "localeCompare env_collated = compare_folded"
    by (simp add: env_collated_def env0_def)
  have total: "\<forall>a b. localeCompare env_collated a b \<le> 0 \<or> localeCompare env_collated b a \<le> 0"
    unfolding cmp using compare_folded_total by blast
  have trans: "\<forall>a b c. localeCompare env_collated a b \<le> 0
                  \<longrightarrow> localeCompare env_collated b c \<le> 0
                  \<longrightarrow> localeCompare env_collated a c \<le> 0"
    unfolding cmp using compare_folded_trans by blast
  have args: "drop 1 (positional (mri_plain [''ls''])) = []"
    by (simp add: mri_plain_def)
  have ls: "certs_ls env_collated = Inr [cert_upper_b, cert_a, cert_c]"
    by (simp add: env_collated_def env0_def)
  have sub: "Some ''ls'' = Some ''ls'' \<or> Some ''ls'' = Some ''list''"
    by simp
  from ls collated_rows ls_rows_sorted [OF total trans args ls sub, of sh0]
  show ?thesis by blast
qed

end
